theory Spec2Isabelle
  imports Complex_Main "HOL-Library.Sublist"
begin

section \<open>Strings\<close>

text \<open>
  Source strings are modelled as \<^typ>\<open>string\<close>. \<open>String.prototype.includes\<close> is the
  substring test: the pattern occurs at some position of the text.
\<close>

fun str_includes :: "string \<Rightarrow> string \<Rightarrow> bool" where
  "str_includes [] pat = (pat = [])"
| "str_includes (c # cs) pat = (prefix pat (c # cs) \<or> str_includes cs pat)"

section \<open>ACME orchestrator (acme-client.ts)\<close>

subsection \<open>getDNSRecordValue\<close>

text \<open>
  \<^verbatim>\<open>getDNSRecordValue(keyAuthorization: string): string { return keyAuthorization; }\<close>
  The source comment says that the library call \<open>getChallengeKeyAuthorization\<close> has
  already produced the digest, so the method does no further processing.
\<close>

definition getDNSRecordValue :: "string \<Rightarrow> string" where
  "getDNSRecordValue keyAuthorization = keyAuthorization"

text \<open>
  The vocabulary of the specification, used to state what it says about the record value:
  the base64url alphabet (RFC 4648, section 5) and the length of the unpadded encoding of
  a digest of \<open>n\<close> bytes.
\<close>

definition base64url_char :: "char \<Rightarrow> bool" where
  "base64url_char c =
     (c \<in> set (''ABCDEFGHIJKLMNOPQRSTUVWXYZ'' @ ''abcdefghijklmnopqrstuvwxyz'' @
                ''0123456789'' @ ''-_''))"

definition base64url_alphabet :: "string \<Rightarrow> bool" where
  "base64url_alphabet s = list_all base64url_char s"

definition base64url_length :: "nat \<Rightarrow> nat" where
  "base64url_length n = (n * 8 + 5) div 6"

definition sha256_digest_bytes :: nat where
  "sha256_digest_bytes = 32"

definition encoded_digest_length :: nat where
  "encoded_digest_length = base64url_length sha256_digest_bytes"

subsection \<open>Data of the orchestrator\<close>

datatype js_error = Error string | TypeError string

record acme_account =
  accountKey :: string
  accountUrl :: string
  email :: string
  directory :: string

text \<open>
  What the persistence collaborator resolves with. \<open>account_data\<close> is read with a cast and
  no check: when it is missing, reading a field of it throws a TypeError.
\<close>

record saved_account =
  account_data :: "acme_account option"

text \<open>The options of \<open>new acme.Client(...)\<close>; a client is the options it was built with.\<close>

record acme_client =
  directoryUrl :: string
  cl_accountKey :: string
  cl_accountUrl :: "string option"

record challenge =
  ch_type :: string
  ch_url :: string
  ch_token :: string
  ch_status :: string

record authorization =
  identifier_value :: string
  auth_challenges :: "challenge list"

record acme_order =
  order_url :: string
  order_status :: string

record certificate_order =
  co_order :: acme_order
  co_csr :: string
  co_domains :: "string list"
  co_challenges :: "challenge list"

text \<open>
  An in-flight operation raced against a timer: when the timer fires the operation has
  been fulfilled, has been rejected, or is still pending (then the timer's rejection
  wins). \<open>race\<close> is \<open>await Promise.race([operation, timeoutPromise])\<close>.
\<close>

datatype 'a settle = Fulfilled 'a | Rejected js_error | Pending

definition race :: "'a settle \<Rightarrow> js_error \<Rightarrow> js_error + 'a" where
  "race operation timeoutError =
     (case operation of
        Fulfilled v \<Rightarrow> Inr v
      | Rejected e \<Rightarrow> Inl e
      | Pending \<Rightarrow> Inl timeoutError)"

text \<open>
  The collaborators: the ACME library, whose calls reach the server, and the account
  manager (the persistence collaborator).
\<close>

record acme_library =
  new_Client :: "acme_client \<Rightarrow> js_error + acme_client"
  createOrder :: "acme_client \<Rightarrow> string list \<Rightarrow> acme_order settle"
  getAuthorizations :: "acme_client \<Rightarrow> acme_order \<Rightarrow> authorization list settle"

record account_manager =
  am_loadAccount :: "nat \<Rightarrow> string \<Rightarrow> string \<Rightarrow> js_error + saved_account option"

subsection \<open>loadAccount\<close>

text \<open>
  The body of the \<open>try\<close> block, on the field \<open>this.client\<close>: the new value of the field
  and the value returned (\<open>Inr None\<close> is \<open>null\<close>) or the exception thrown (\<open>Inl\<close>).
\<close>

definition loadAccount_try ::
  "acme_library \<Rightarrow> account_manager \<Rightarrow> acme_client option \<Rightarrow> string \<Rightarrow> nat \<Rightarrow>
   acme_client option \<times> (js_error + acme_account option)" where
  "loadAccount_try lib am client domain connectionId =
     (case am_loadAccount am connectionId domain ''letsencrypt'' of
        Inl e \<Rightarrow> (client, Inl e)
      | Inr None \<Rightarrow> (client, Inr None)
      | Inr (Some savedAccount) \<Rightarrow>
          (case account_data savedAccount of
             None \<Rightarrow> (client, Inl (TypeError ''accountUrl''))
           | Some acmeAccount \<Rightarrow>
               (case new_Client lib
                       \<lparr> directoryUrl = directory acmeAccount,
                         cl_accountKey = accountKey acmeAccount,
                         cl_accountUrl = (if accountUrl acmeAccount = [] then None
                                          else Some (accountUrl acmeAccount)) \<rparr> of
                  Inl e \<Rightarrow> (client, Inl e)
                | Inr c \<Rightarrow> (Some c, Inr (Some acmeAccount)))))"

text \<open>The \<open>catch\<close> block logs the error and returns \<open>null\<close>.\<close>

definition loadAccount ::
  "acme_library \<Rightarrow> account_manager \<Rightarrow> acme_client option \<Rightarrow> string \<Rightarrow> nat \<Rightarrow>
   acme_client option \<times> (js_error + acme_account option)" where
  "loadAccount lib am client domain connectionId =
     (case loadAccount_try lib am client domain connectionId of
        (c, Inl e) \<Rightarrow> (c, Inr None)
      | (c, Inr r) \<Rightarrow> (c, Inr r))"

subsection \<open>requestCertificate\<close>

definition dns01_challenge :: "authorization \<Rightarrow> challenge option" where
  "dns01_challenge authorization =
     find (\<lambda>challenge. ch_type challenge = ''dns-01'') (auth_challenges authorization)"

text \<open>The loop over the authorizations: it pushes one challenge each, or throws.\<close>

fun collect_challenges :: "authorization list \<Rightarrow> challenge list \<Rightarrow> js_error + challenge list" where
  "collect_challenges [] challenges = Inr challenges"
| "collect_challenges (authorization # rest) challenges =
     (case dns01_challenge authorization of
        Some dnsChallenge \<Rightarrow> collect_challenges rest (challenges @ [dnsChallenge])
      | None \<Rightarrow>
          Inl (Error (''No DNS-01 challenge found for '' @ identifier_value authorization)))"

text \<open>
  \<open>Inr\<close> is the order returned, \<open>Inl\<close> the exception thrown: the \<open>catch\<close> block logs and
  rethrows.
\<close>

definition requestCertificate ::
  "acme_library \<Rightarrow> acme_client option \<Rightarrow> string \<Rightarrow> string list \<Rightarrow> js_error + certificate_order" where
  "requestCertificate lib client csr domains =
     (case client of
        None \<Rightarrow>
          Inl (Error ''ACME client not initialized. Please load or create an account first.'')
      | Some cl \<Rightarrow>
          if domains = [] then Inl (Error ''No domains provided for certificate request'')
          else
            (case race (createOrder lib cl domains)
                    (Error ''Order creation timeout after 15 seconds - Let's Encrypt API may be slow'') of
               Inl e \<Rightarrow> Inl e
             | Inr order \<Rightarrow>
                 (case race (getAuthorizations lib cl order)
                         (Error ''Authorization retrieval timeout after 30 seconds'') of
                    Inl e \<Rightarrow> Inl e
                  | Inr authorizations \<Rightarrow>
                      (case collect_challenges authorizations [] of
                         Inl e \<Rightarrow> Inl e
                       | Inr challenges \<Rightarrow>
                           Inr \<lparr> co_order = order, co_csr = csr, co_domains = domains,
                                 co_challenges = challenges \<rparr>))))"

text \<open>
  An example ACME server that answers an order for two domains with the authorization of
  the first one only, and example collaborators for \<open>loadAccount\<close>: a store that fails,
  and a store that holds one account.
\<close>

definition example_client :: acme_client where
  "example_client =
     \<lparr> directoryUrl = ''https://acme.example/directory'', cl_accountKey = ''KEY'',
       cl_accountUrl = Some ''https://acme.example/acct/1'' \<rparr>"

definition example_order :: acme_order where
  "example_order = \<lparr> order_url = ''https://acme.example/order/1'', order_status = ''pending'' \<rparr>"

definition dns_challenge_a :: challenge where
  "dns_challenge_a =
     \<lparr> ch_type = ''dns-01'', ch_url = ''https://acme.example/chall/a2'', ch_token = ''tokA'',
       ch_status = ''pending'' \<rparr>"

definition http_challenge_a :: challenge where
  "http_challenge_a =
     \<lparr> ch_type = ''http-01'', ch_url = ''https://acme.example/chall/a1'', ch_token = ''tokA'',
       ch_status = ''pending'' \<rparr>"

definition authorization_a :: authorization where
  "authorization_a =
     \<lparr> identifier_value = ''a.example.com'',
       auth_challenges = [http_challenge_a, dns_challenge_a] \<rparr>"

definition short_library :: acme_library where
  "short_library =
     \<lparr> new_Client = (\<lambda>opts. Inr opts),
       createOrder = (\<lambda>cl ds. Fulfilled example_order),
       getAuthorizations = (\<lambda>cl ord. Fulfilled [authorization_a]) \<rparr>"

definition example_account :: acme_account where
  "example_account =
     \<lparr> accountKey = ''KEY'', accountUrl = ''https://acme.example/acct/1'',
       email = ''admin@example.com'', directory = ''https://acme.example/directory'' \<rparr>"

definition failing_store :: account_manager where
  "failing_store = \<lparr> am_loadAccount = (\<lambda>connectionId domain provider. Inl (Error ''EIO'')) \<rparr>"

definition example_store :: account_manager where
  "example_store =
     \<lparr> am_loadAccount = (\<lambda>connectionId domain provider.
          if connectionId = 1 \<and> domain = ''a.example.com'' \<and> provider = ''letsencrypt''
          then Inr (Some \<lparr> account_data = Some example_account \<rparr>)
          else Inr None) \<rparr>"

text \<open>
  Two more example servers: one that returns an authorization with a DNS-01 challenge for
  each of two domains, and one whose second authorization offers HTTP-01 only.
\<close>

definition dns_challenge_b :: challenge where
  "dns_challenge_b =
     \<lparr> ch_type = ''dns-01'', ch_url = ''https://acme.example/chall/b1'', ch_token = ''tokB'',
       ch_status = ''pending'' \<rparr>"

definition authorization_b :: authorization where
  "authorization_b =
     \<lparr> identifier_value = ''b.example.com'', auth_challenges = [dns_challenge_b] \<rparr>"

definition authorization_b_http :: authorization where
  "authorization_b_http =
     \<lparr> identifier_value = ''b.example.com'',
       auth_challenges = [http_challenge_a\<lparr>ch_url := ''https://acme.example/chall/b0''\<rparr>] \<rparr>"

definition full_library :: acme_library where
  "full_library =
     \<lparr> new_Client = (\<lambda>opts. Inr opts),
       createOrder = (\<lambda>cl ds. Fulfilled example_order),
       getAuthorizations = (\<lambda>cl ord. Fulfilled [authorization_a, authorization_b]) \<rparr>"

definition http_only_library :: acme_library where
  "http_only_library =
     \<lparr> new_Client = (\<lambda>opts. Inr opts),
       createOrder = (\<lambda>cl ds. Fulfilled example_order),
       getAuthorizations = (\<lambda>cl ord. Fulfilled [authorization_a, authorization_b_http]) \<rparr>"

definition example_full_order :: certificate_order where
  "example_full_order =
     \<lparr> co_order = example_order, co_csr = ''CSR'',
       co_domains = [''a.example.com'', ''b.example.com''],
       co_challenges = [dns_challenge_a, dns_challenge_b] \<rparr>"

section \<open>Certificate inspector (second module of ssh-client.ts)\<close>

subsection \<open>Dates and strings of the platform\<close>

text \<open>
  A \<open>Date\<close> is its time value: epoch milliseconds, or \<open>None\<close> for an Invalid Date
  (time value NaN). Comparisons with NaN are false and arithmetic on NaN is NaN. Time
  values are integers of magnitude at most \<open>8.64e15\<close>, so the double-precision
  subtraction is exact and the quotient by \<open>86400000\<close> cannot round up to the next
  integer: \<open>Math.floor\<close> of the quotient is the integer floor division.
\<close>

type_synonym js_date = "int option"

definition ms_per_day :: int where
  "ms_per_day = 1000 * 60 * 60 * 24"

definition date_ge :: "js_date \<Rightarrow> js_date \<Rightarrow> bool" where
  "date_ge a b = (case (a, b) of (Some x, Some y) \<Rightarrow> x \<ge> y | _ \<Rightarrow> False)"

definition date_le :: "js_date \<Rightarrow> js_date \<Rightarrow> bool" where
  "date_le a b = (case (a, b) of (Some x, Some y) \<Rightarrow> x \<le> y | _ \<Rightarrow> False)"

definition days_until :: "js_date \<Rightarrow> js_date \<Rightarrow> int option" where
  "days_until validTo now =
     (case (validTo, now) of
        (Some t, Some n) \<Rightarrow> Some ((t - n) div ms_per_day)
      | _ \<Rightarrow> None)"

text \<open>\<open>v || d\<close> on an optional string: \<open>undefined\<close> and the empty string are falsy.\<close>

definition or_else :: "string option \<Rightarrow> string \<Rightarrow> string" where
  "or_else v d = (case v of None \<Rightarrow> d | Some s \<Rightarrow> if s = [] then d else s)"

text \<open>
  \<open>s.split(sep)\<close> for a non-empty separator (the source splits on \<open>', '\<close>, on a
  newline and on \<open>'='\<close>): \<open>acc\<close> is the piece being read.
\<close>

function js_split :: "string \<Rightarrow> string \<Rightarrow> string \<Rightarrow> string list" where
  "js_split sep acc [] = [acc]"
| "js_split sep acc (c # cs) =
     (if sep \<noteq> [] \<and> prefix sep (c # cs)
      then acc # js_split sep [] (drop (length sep) (c # cs))
      else js_split sep (acc @ [c]) cs)"
  by pat_completeness auto
termination
  by (relation "measure (\<lambda>(sep, acc, s). length s)") auto

definition not_part :: string where
  "not_part = ''<Not Part Of Certificate>''"

subsection \<open>Data\<close>

record name_info =
  ni_CN :: string
  ni_O :: string
  ni_OU :: string

record certificate_info =
  subject :: name_info
  issuer :: name_info
  validFrom :: string
  validTo :: string
  fingerprint :: string
  fingerprint256 :: string
  serialNumber :: string
  subjectAltNames :: "string list"
  isValid :: bool
  daysUntilExpiry :: "int option"

text \<open>
  What \<open>socket.getPeerCertificate(true)\<close> gives: every field may be missing; the two
  validity fields are the time values of \<open>new Date(cert.valid_from)\<close> and
  \<open>new Date(cert.valid_to)\<close>.
\<close>

record peer_name =
  pn_CN :: "string option"
  pn_O :: "string option"
  pn_OU :: "string option"

record peer_certificate =
  pc_subject :: "peer_name option"
  pc_issuer :: "peer_name option"
  pc_valid_from :: js_date
  pc_valid_to :: js_date
  pc_fingerprint :: "string option"
  pc_fingerprint256 :: "string option"
  pc_serialNumber :: "string option"
  pc_subjectaltname :: "string option"

text \<open>
  What \<open>new crypto.X509Certificate(pem)\<close> gives. \<open>subject\<close> and \<open>issuer\<close> are
  multi-line strings of \<open>KEY=value\<close> lines; for a certificate whose subject or issuer
  name is empty the field is \<open>undefined\<close>, and the call of \<open>.split\<close> on it throws a
  TypeError.
\<close>

record x509_certificate =
  x_subject :: "string option"
  x_issuer :: "string option"
  x_validFrom :: js_date
  x_validTo :: js_date
  x_fingerprint :: "string option"
  x_fingerprint256 :: "string option"
  x_serialNumber :: "string option"
  x_subjectAltName :: "string option"

text \<open>
  How one TLS probe ends, that is which call of \<open>resolve\<close> comes first: the callback of
  \<open>tls.connect\<close> runs and reads the peer certificate (\<open>None\<close> when it is missing or an
  empty object), the callback throws inside its \<open>try\<close>, the socket reports an error or a
  timeout, or \<open>tls.connect\<close> itself throws inside the executor of the promise.
\<close>

datatype tls_outcome =
    TlsSecureConnect "peer_certificate option"
  | TlsCallbackThrows
  | TlsSocketError
  | TlsSocketTimeout
  | TlsConnectThrows string

datatype access = LiveProbe nat | LocalFile string

text \<open>
  The world the inspector reads: the network, the file system, the X.509 parser, the
  locale formatter of dates, the clock at each access, \<open>path.join\<close>, the two environment
  variables and \<open>__dirname\<close>. Calls of the logger are left out: they return nothing the
  code reads.
\<close>

record inspector_env =
  tls_connect :: "string \<Rightarrow> nat \<Rightarrow> tls_outcome"
  existsSync :: "string \<Rightarrow> bool"
  readFileSync :: "string \<Rightarrow> js_error + string"
  x509_parse :: "string \<Rightarrow> js_error + x509_certificate"
  toLocaleString :: "js_date \<Rightarrow> string"
  clock :: "access \<Rightarrow> int"
  path_join :: "string list \<Rightarrow> string"
  env_ACCOUNTS_DIR :: "string option"
  env_LETSENCRYPT_STAGING :: "string option"
  dirname :: string

subsection \<open>getCertificateInfo\<close>

definition alt_names :: "string option \<Rightarrow> string list" where
  "alt_names v =
     (case v of None \<Rightarrow> [] | Some s \<Rightarrow> if s = [] then [] else js_split '', '' [] s)"

definition peer_name_info :: "peer_name option \<Rightarrow> name_info" where
  "peer_name_info n =
     \<lparr> ni_CN = or_else (case n of None \<Rightarrow> None | Some m \<Rightarrow> pn_CN m) not_part,
       ni_O = or_else (case n of None \<Rightarrow> None | Some m \<Rightarrow> pn_O m) not_part,
       ni_OU = or_else (case n of None \<Rightarrow> None | Some m \<Rightarrow> pn_OU m) not_part \<rparr>"

definition live_info :: "inspector_env \<Rightarrow> int \<Rightarrow> peer_certificate \<Rightarrow> certificate_info" where
  "live_info env now cert =
     (let vFrom = pc_valid_from cert;
          vTo = pc_valid_to cert;
          days = days_until vTo (Some now)
      in \<lparr> subject = peer_name_info (pc_subject cert),
           issuer = peer_name_info (pc_issuer cert),
           validFrom = toLocaleString env vFrom,
           validTo = toLocaleString env vTo,
           fingerprint = or_else (pc_fingerprint cert) [],
           fingerprint256 = or_else (pc_fingerprint256 cert) [],
           serialNumber = or_else (pc_serialNumber cert) [],
           subjectAltNames = alt_names (pc_subjectaltname cert),
           isValid = (date_ge (Some now) vFrom \<and> date_le (Some now) vTo),
           daysUntilExpiry = days \<rparr>)"

text \<open>
  The promise of \<open>getCertificateInfo\<close>: \<open>Inr\<close> what it resolves with (\<open>None\<close> is
  \<open>null\<close>), \<open>Inl\<close> a rejection, which only an exception of the executor itself gives.
\<close>

definition getCertificateInfo ::
  "inspector_env \<Rightarrow> int \<Rightarrow> string \<Rightarrow> nat \<Rightarrow> js_error + certificate_info option" where
  "getCertificateInfo env now hostname port =
     (case tls_connect env hostname port of
        TlsSecureConnect None \<Rightarrow> Inr None
      | TlsSecureConnect (Some cert) \<Rightarrow> Inr (Some (live_info env now cert))
      | TlsCallbackThrows \<Rightarrow> Inr None
      | TlsSocketError \<Rightarrow> Inr None
      | TlsSocketTimeout \<Rightarrow> Inr None
      | TlsConnectThrows m \<Rightarrow> Inl (Error m))"

subsection \<open>getCertificateInfoFromFile\<close>

definition dn_entry :: "(string \<rightharpoonup> string) \<Rightarrow> string \<Rightarrow> (string \<rightharpoonup> string)" where
  "dn_entry acc line =
     (case js_split ''='' [] line of
        k # v # _ \<Rightarrow> if k \<noteq> [] \<and> v \<noteq> [] then acc(k \<mapsto> v) else acc
      | _ \<Rightarrow> acc)"

definition parse_dn :: "string \<Rightarrow> (string \<rightharpoonup> string)" where
  "parse_dn s = foldl dn_entry Map.empty (js_split [CHR 0x0A] [] s)"

definition dn_name_info :: "(string \<rightharpoonup> string) \<Rightarrow> name_info" where
  "dn_name_info m =
     \<lparr> ni_CN = or_else (m ''CN'') not_part,
       ni_O = or_else (m ''O'') not_part,
       ni_OU = or_else (m ''OU'') not_part \<rparr>"

definition file_info ::
  "inspector_env \<Rightarrow> int \<Rightarrow> x509_certificate \<Rightarrow> string \<Rightarrow> string \<Rightarrow> certificate_info" where
  "file_info env now cert subj iss =
     (let vFrom = x_validFrom cert;
          vTo = x_validTo cert;
          days = days_until vTo (Some now)
      in \<lparr> subject = dn_name_info (parse_dn subj),
           issuer = dn_name_info (parse_dn iss),
           validFrom = toLocaleString env vFrom,
           validTo = toLocaleString env vTo,
           fingerprint = or_else (x_fingerprint cert) [],
           fingerprint256 = or_else (x_fingerprint256 cert) [],
           serialNumber = or_else (x_serialNumber cert) [],
           subjectAltNames = alt_names (x_subjectAltName cert),
           isValid = (date_ge (Some now) vFrom \<and> date_le (Some now) vTo),
           daysUntilExpiry = days \<rparr>)"

text \<open>The body of the \<open>try\<close> block: \<open>Inl\<close> is an exception thrown inside it.\<close>

definition read_certificate_file ::
  "inspector_env \<Rightarrow> int \<Rightarrow> string \<Rightarrow> js_error + certificate_info option" where
  "read_certificate_file env now certPath =
     (if \<not> existsSync env certPath then Inr None
      else case readFileSync env certPath of
        Inl e \<Rightarrow> Inl e
      | Inr certContent \<Rightarrow>
          (case x509_parse env certContent of
             Inl e \<Rightarrow> Inl e
           | Inr cert \<Rightarrow>
               (case x_subject cert of
                  None \<Rightarrow> Inl (TypeError ''subject'')
                | Some subj \<Rightarrow>
                    (case x_issuer cert of
                       None \<Rightarrow> Inl (TypeError ''issuer'')
                     | Some iss \<Rightarrow> Inr (Some (file_info env now cert subj iss))))))"

text \<open>The \<open>catch\<close> block logs the error and returns \<open>null\<close>.\<close>

definition getCertificateInfoFromFile ::
  "inspector_env \<Rightarrow> int \<Rightarrow> string \<Rightarrow> js_error + certificate_info option" where
  "getCertificateInfoFromFile env now certPath =
     (case read_certificate_file env now certPath of
        Inl e \<Rightarrow> Inr None
      | Inr r \<Rightarrow> Inr r)"

subsection \<open>getCertificateInfoWithFallback\<close>

definition accountsDir :: "inspector_env \<Rightarrow> string" where
  "accountsDir env =
     (case env_ACCOUNTS_DIR env of
        None \<Rightarrow> path_join env [dirname env, ''..'', ''accounts'']
      | Some d \<Rightarrow> if d = [] then path_join env [dirname env, ''..'', ''accounts''] else d)"

definition isStaging :: "inspector_env \<Rightarrow> bool" where
  "isStaging env = (env_LETSENCRYPT_STAGING env \<noteq> Some ''false'')"

definition certSubDir :: "inspector_env \<Rightarrow> string" where
  "certSubDir env = (if isStaging env then ''staging'' else ''prod'')"

definition alternateCertSubDir :: "inspector_env \<Rightarrow> string" where
  "alternateCertSubDir env = (if isStaging env then ''prod'' else ''staging'')"

definition certPath_in :: "inspector_env \<Rightarrow> string \<Rightarrow> string \<Rightarrow> string" where
  "certPath_in env hostname subDir =
     path_join env [path_join env [accountsDir env, hostname], subDir, ''certificate.pem'']"

definition ports :: "nat list" where
  "ports = [443, 8443, 9443]"

text \<open>
  The \<open>for\<close> loop over the ports, with the log of the sources consulted so far. A
  rejection of \<open>getCertificateInfo\<close> is caught inside the loop, which goes on.
\<close>

fun probe_ports ::
  "inspector_env \<Rightarrow> string \<Rightarrow> nat list \<Rightarrow> access list \<Rightarrow> access list \<times> certificate_info option" where
  "probe_ports env hostname [] seen = (seen, None)"
| "probe_ports env hostname (port # rest) seen =
     (case getCertificateInfo env (clock env (LiveProbe port)) hostname port of
        Inr (Some certInfo) \<Rightarrow> (seen @ [LiveProbe port], Some certInfo)
      | Inr None \<Rightarrow> probe_ports env hostname rest (seen @ [LiveProbe port])
      | Inl e \<Rightarrow> probe_ports env hostname rest (seen @ [LiveProbe port]))"

text \<open>
  The result is the log of the sources consulted, in order, and the outcome of the
  promise: \<open>Inr\<close> the value returned (\<open>None\<close> is \<open>null\<close>), \<open>Inl\<close> an exception.
\<close>

definition getCertificateInfoWithFallback ::
  "inspector_env \<Rightarrow> string \<Rightarrow> access list \<times> (js_error + certificate_info option)" where
  "getCertificateInfoWithFallback env hostname =
     (let certPath = certPath_in env hostname (certSubDir env) in
      case probe_ports env hostname ports [] of
        (seen, Some certInfo) \<Rightarrow> (seen, Inr (Some certInfo))
      | (seen, None) \<Rightarrow>
          (case getCertificateInfoFromFile env (clock env (LocalFile certPath)) certPath of
             Inl e \<Rightarrow> (seen @ [LocalFile certPath], Inl e)
           | Inr (Some localCertInfo) \<Rightarrow> (seen @ [LocalFile certPath], Inr (Some localCertInfo))
           | Inr None \<Rightarrow>
               (let alternateCertPath = certPath_in env hostname (alternateCertSubDir env) in
                case getCertificateInfoFromFile env (clock env (LocalFile alternateCertPath))
                       alternateCertPath of
                  Inl e \<Rightarrow> (seen @ [LocalFile certPath, LocalFile alternateCertPath], Inl e)
                | Inr r \<Rightarrow> (seen @ [LocalFile certPath, LocalFile alternateCertPath], Inr r))))"

subsection \<open>Sources that yield nothing, and an example world\<close>

text \<open>
  A probe yields no certificate unless the handshake completes and the peer presents a
  non-empty certificate. A path yields no certificate when the file is missing, cannot be
  read, is not a parseable PEM, or parses to a certificate without subject or issuer.
\<close>

definition no_live_certificate :: "inspector_env \<Rightarrow> string \<Rightarrow> nat \<Rightarrow> bool" where
  "no_live_certificate env hostname port =
     (case tls_connect env hostname port of
        TlsSecureConnect (Some cert) \<Rightarrow> False
      | _ \<Rightarrow> True)"

definition no_local_certificate :: "inspector_env \<Rightarrow> string \<Rightarrow> bool" where
  "no_local_certificate env certPath =
     (if \<not> existsSync env certPath then True
      else case readFileSync env certPath of
        Inl e \<Rightarrow> True
      | Inr certContent \<Rightarrow>
          (case x509_parse env certContent of
             Inl e \<Rightarrow> True
           | Inr cert \<Rightarrow> x_subject cert = None \<or> x_issuer cert = None))"

text \<open>
  An example world, to run the inspector on: \<open>live.example.com\<close> presents a certificate
  on port 8443 only, \<open>stored.example.com\<close> has a PEM in the staging subdirectory and no
  live certificate, every other host has nothing. \<open>posix_join\<close> joins the non-empty
  segments with a slash.
\<close>

definition posix_join :: "string list \<Rightarrow> string" where
  "posix_join parts =
     (case filter (\<lambda>p. p \<noteq> []) parts of
        [] \<Rightarrow> ''.''
      | p # ps \<Rightarrow> foldl (\<lambda>a b. a @ ''/'' @ b) p ps)"

definition example_peer :: peer_certificate where
  "example_peer =
     \<lparr> pc_subject = Some \<lparr> pn_CN = Some ''live.example.com'', pn_O = None, pn_OU = None \<rparr>,
       pc_issuer = Some \<lparr> pn_CN = Some ''R3'', pn_O = Some ''Let's Encrypt'', pn_OU = None \<rparr>,
       pc_valid_from = Some 1690000000000,
       pc_valid_to = Some 1705000000000,
       pc_fingerprint = Some ''AA:BB'',
       pc_fingerprint256 = Some ''CC:DD'',
       pc_serialNumber = Some ''01'',
       pc_subjectaltname = Some ''DNS:live.example.com, DNS:live'' \<rparr>"

definition example_x509 :: x509_certificate where
  "example_x509 =
     \<lparr> x_subject = Some (''CN=stored.example.com'' @ [CHR 0x0A] @ ''O=Example''),
       x_issuer = Some ''CN=R3'',
       x_validFrom = Some 1690000000000,
       x_validTo = Some 1699999999999,
       x_fingerprint = Some ''AA:BB'',
       x_fingerprint256 = Some ''CC:DD'',
       x_serialNumber = Some ''02'',
       x_subjectAltName = None \<rparr>"

definition example_pem_path :: string where
  "example_pem_path = ''/data/accounts/stored.example.com/staging/certificate.pem''"

definition example_env :: inspector_env where
  "example_env =
     \<lparr> tls_connect = (\<lambda>h p. if h = ''live.example.com'' \<and> p = 8443
                              then TlsSecureConnect (Some example_peer)
                              else if p = 443 then TlsSocketError else TlsSocketTimeout),
       existsSync = (\<lambda>p. p = example_pem_path),
       readFileSync = (\<lambda>p. if p = example_pem_path then Inr ''PEM'' else Inl (Error ''ENOENT'')),
       x509_parse = (\<lambda>s. if s = ''PEM'' then Inr example_x509 else Inl (Error ''PEM'')),
       toLocaleString = (\<lambda>d. case d of None \<Rightarrow> ''Invalid Date'' | Some t \<Rightarrow> ''a date''),
       clock = (\<lambda>a. 1700000000000),
       path_join = posix_join,
       env_ACCOUNTS_DIR = Some ''/data/accounts'',
       env_LETSENCRYPT_STAGING = None,
       dirname = ''/app/dist'' \<rparr>"

text \<open>
  A second example world: the staging PEM of \<open>stored.example.com\<close> is a certificate with
  an empty subject (its names are in the subject alternative name only), for which the
  X.509 parser gives \<open>subject\<close> as \<open>undefined\<close>, and the production subdirectory holds
  another certificate.
\<close>

definition subjectless_x509 :: x509_certificate where
  "subjectless_x509 =
     \<lparr> x_subject = None,
       x_issuer = Some ''CN=R3'',
       x_validFrom = Some 1690000000000,
       x_validTo = Some 1705000000000,
       x_fingerprint = Some ''EE:FF'',
       x_fingerprint256 = Some ''11:22'',
       x_serialNumber = Some ''03'',
       x_subjectAltName = Some ''DNS:stored.example.com'' \<rparr>"

definition example_prod_path :: string where
  "example_prod_path = ''/data/accounts/stored.example.com/prod/certificate.pem''"

definition subjectless_env :: inspector_env where
  "subjectless_env =
     example_env
       \<lparr> existsSync := (\<lambda>p. p = example_pem_path \<or> p = example_prod_path),
         readFileSync := (\<lambda>p. if p = example_pem_path then Inr ''SAN-ONLY PEM''
                               else if p = example_prod_path then Inr ''PEM''
                               else Inl (Error ''ENOENT'')),
         x509_parse := (\<lambda>s. if s = ''SAN-ONLY PEM'' then Inr subjectless_x509
                             else if s = ''PEM'' then Inr example_x509
                             else Inl (Error ''PEM'')) \<rparr>"

section \<open>Remote shell automaton (class SSHClient of ssh-client.ts)\<close>

subsection \<open>Results, state and events\<close>

text \<open>
  The error messages of the three static operations, as values. \<open>CommandTimeout\<close>
  carries \<open>commandTimeout\<close> and \<open>NoResponse\<close> carries \<open>remainingTime\<close> (milliseconds),
  which the source prints in seconds.
\<close>

datatype shell_error =
    ConnectionTimeout
  | ShellStartFailed string
  | PromptNotReceived
  | NoDataReceived
  | ConnectionError string
  | ConnectionClosed
  | ConnectFailed string
  | CommandTimeout nat
  | NoResponse nat
  | ServiceRestartFailed

text \<open>
  One record for \<open>SSHTestResult\<close>, \<open>SSHCommandResult\<close> and \<open>SSHStreamCommandResult\<close>:
  a field the object literal does not set is \<open>None\<close>; \<open>result_output\<close> is the field
  \<open>output\<close>.
\<close>

record ssh_result =
  success :: bool
  result_output :: "string option"
  error :: "shell_error option"
  message :: "string option"

definition failure :: "shell_error \<Rightarrow> string option \<Rightarrow> ssh_result" where
  "failure e out = \<lparr> success = False, result_output = out, error = Some e, message = None \<rparr>"

definition succeeded :: "string \<Rightarrow> ssh_result" where
  "succeeded out = \<lparr> success = True, result_output = Some out, error = None, message = None \<rparr>"

record command_params =
  command :: string
  commandTimeout :: nat
  onData :: bool

datatype phase = Connecting | ShellRequested | ShellOpen | ShellClosed | NoShell

text \<open>
  The variables of the closure of one invocation: the buffer (\<open>dataReceived\<close> in
  \<open>testConnection\<close>, \<open>commandOutput\<close> in the other two), the flag \<open>resolved\<close>, the
  promise (\<open>settled\<close> is the value it was resolved with, \<open>None\<close> while it is pending),
  the number of calls of \<open>resolve\<close> and of \<open>conn.end()\<close>, the pending timers (the overall
  timer \<open>timeout\<close>, the 5000 ms timer, and the second timer: \<open>shellTimeout\<close> in
  \<open>testConnection\<close>, the \<open>remainingTime\<close> timer in the other two), what was written to the
  stream and what the \<open>onData\<close> observer was called with. \<open>phase\<close> records which
  handlers are registered.
\<close>

record shell_state =
  phase :: phase
  commandOutput :: string
  resolved :: bool
  settled :: "ssh_result option"
  resolve_calls :: nat
  end_calls :: nat
  timeout_armed :: bool
  prompt_timer_armed :: bool
  response_timer_armed :: bool
  written :: "string list"
  observed :: "(string \<times> string) list"

text \<open>
  What can happen to one invocation: \<open>conn.connect\<close> throws; the connection is ready
  (the handler calls \<open>conn.shell\<close>); the callback of \<open>conn.shell\<close> runs, with an error
  message or with a stream; the stream delivers data on its primary or error stream, or
  closes; the connection reports an error or closes; one of the three timers fires.
\<close>

datatype event =
    ConnectThrows string
  | ConnReady
  | ShellCallback "string option"
  | StreamData string
  | StderrData string
  | StreamClose
  | ConnError string
  | ConnClose
  | TimeoutFires
  | PromptTimerFires
  | ResponseTimerFires

definition initial :: shell_state where
  "initial =
     \<lparr> phase = Connecting, commandOutput = [], resolved = False, settled = None,
       resolve_calls = 0, end_calls = 0, timeout_armed = True, prompt_timer_armed = False,
       response_timer_armed = False, written = [], observed = [] \<rparr>"

subsection \<open>cleanup and resolveResult\<close>

text \<open>
  \<^verbatim>\<open>const cleanup = () => { if (!resolved) { resolved = true; conn.end(); } };\<close>
  \<^verbatim>\<open>const resolveResult = (result) => { cleanup(); resolve(result); };\<close>
  A promise keeps the value of the first call of \<open>resolve\<close>; later calls do nothing.
\<close>

definition cleanup :: "shell_state \<Rightarrow> shell_state" where
  "cleanup s =
     (if \<not> resolved s then s\<lparr> resolved := True, end_calls := Suc (end_calls s) \<rparr> else s)"

definition resolve :: "ssh_result \<Rightarrow> shell_state \<Rightarrow> shell_state" where
  "resolve result s =
     s\<lparr> resolve_calls := Suc (resolve_calls s),
        settled := (case settled s of None \<Rightarrow> Some result | Some r \<Rightarrow> Some r) \<rparr>"

definition resolveResult :: "ssh_result \<Rightarrow> shell_state \<Rightarrow> shell_state" where
  "resolveResult result s = resolve result (cleanup s)"

definition clearTimeout :: "shell_state \<Rightarrow> shell_state" where
  "clearTimeout s = s\<lparr> timeout_armed := False \<rparr>"

subsection \<open>executeCommand and executeCommandWithStream\<close>

definition remainingTime :: "nat \<Rightarrow> nat" where
  "remainingTime t = max (t - 10000) 30000"

text \<open>
  Completion detection, the same text in both data handlers; \<open>s\<close> is the state after the
  chunk was appended to \<open>commandOutput\<close>. (The streaming handler also tests for
  \<open>[STARTING]\<close>, only to write a log line.)
\<close>

definition detect_completion :: "string \<Rightarrow> string \<Rightarrow> shell_state \<Rightarrow> shell_state" where
  "detect_completion cmd chunk s =
     (if str_includes cmd ''service restart'' \<and> str_includes cmd ''Cisco Tomcat'' then
        if str_includes (commandOutput s) ''[STARTED]'' \<and> str_includes chunk ''admin:'' then
          resolveResult (succeeded (commandOutput s)) (clearTimeout s)
        else if str_includes (commandOutput s) ''[FAILED]'' \<or>
                str_includes (commandOutput s) ''ERROR'' then
          resolveResult (failure ServiceRestartFailed (Some (commandOutput s))) (clearTimeout s)
        else s
      else
        if str_includes chunk ''admin:'' \<and> str_includes (commandOutput s) cmd then
          resolveResult (succeeded (commandOutput s)) (clearTimeout s)
        else s)"

definition append_chunk :: "string \<Rightarrow> shell_state \<Rightarrow> shell_state" where
  "append_chunk chunk s = s\<lparr> commandOutput := commandOutput s @ chunk \<rparr>"

definition notify :: "bool \<Rightarrow> string \<Rightarrow> shell_state \<Rightarrow> shell_state" where
  "notify has_observer chunk s =
     (if has_observer then s\<lparr> observed := observed s @ [(chunk, commandOutput s)] \<rparr> else s)"

text \<open>The 5000 ms timer: it sends the command and starts the second timer.\<close>

definition send_command :: "command_params \<Rightarrow> shell_state \<Rightarrow> shell_state" where
  "send_command p s =
     (if \<not> resolved s
      then s\<lparr> written := written s @ [command p @ [CHR 0x0D, CHR 0x0A]],
              response_timer_armed := True \<rparr>
      else s)"

text \<open>The second timer, the same text in both operations.\<close>

definition no_response :: "command_params \<Rightarrow> shell_state \<Rightarrow> shell_state" where
  "no_response p s =
     (if \<not> resolved s
      then resolveResult
             (failure (NoResponse (remainingTime (commandTimeout p))) (Some (commandOutput s)))
             (clearTimeout s)
      else s)"

text \<open>
  One handler per event. A handler that is not registered in the current phase, and a
  timer that is not pending, leaves the state as it is.
\<close>

fun executeCommand_step :: "command_params \<Rightarrow> event \<Rightarrow> shell_state \<Rightarrow> shell_state" where
  "executeCommand_step p (ConnectThrows m) s =
     (if phase s = Connecting
      then resolveResult (failure (ConnectFailed m) None) (clearTimeout s) else s)"
| "executeCommand_step p ConnReady s =
     (if phase s = Connecting then s\<lparr> phase := ShellRequested \<rparr> else s)"
| "executeCommand_step p (ShellCallback (Some m)) s =
     (if phase s = ShellRequested
      then resolveResult (failure (ShellStartFailed m) None) (clearTimeout (s\<lparr> phase := NoShell \<rparr>))
      else s)"
| "executeCommand_step p (ShellCallback None) s =
     (if phase s = ShellRequested
      then s\<lparr> phase := ShellOpen, prompt_timer_armed := True \<rparr> else s)"
| "executeCommand_step p StreamClose s =
     (if phase s = ShellOpen then cleanup (clearTimeout (s\<lparr> phase := ShellClosed \<rparr>)) else s)"
| "executeCommand_step p (StreamData chunk) s =
     (if phase s = ShellOpen
      then detect_completion (command p) chunk (append_chunk chunk s) else s)"
| "executeCommand_step p (StderrData d) s =
     (if phase s = ShellOpen then append_chunk d s else s)"
| "executeCommand_step p PromptTimerFires s =
     (if prompt_timer_armed s then send_command p (s\<lparr> prompt_timer_armed := False \<rparr>) else s)"
| "executeCommand_step p ResponseTimerFires s =
     (if response_timer_armed s then no_response p (s\<lparr> response_timer_armed := False \<rparr>) else s)"
| "executeCommand_step p (ConnError m) s =
     resolveResult (failure (ConnectionError m) None) (clearTimeout s)"
| "executeCommand_step p ConnClose s =
     (if \<not> resolved s
      then resolveResult (failure ConnectionClosed (Some (commandOutput s))) (clearTimeout s)
      else clearTimeout s)"
| "executeCommand_step p TimeoutFires s =
     (if timeout_armed s
      then resolveResult (failure (CommandTimeout (commandTimeout p)) None)
             (s\<lparr> timeout_armed := False \<rparr>)
      else s)"

fun executeCommandWithStream_step ::
  "command_params \<Rightarrow> event \<Rightarrow> shell_state \<Rightarrow> shell_state" where
  "executeCommandWithStream_step p (ConnectThrows m) s =
     (if phase s = Connecting
      then resolveResult (failure (ConnectFailed m) (Some [])) (clearTimeout s) else s)"
| "executeCommandWithStream_step p ConnReady s =
     (if phase s = Connecting then s\<lparr> phase := ShellRequested \<rparr> else s)"
| "executeCommandWithStream_step p (ShellCallback (Some m)) s =
     (if phase s = ShellRequested
      then resolveResult (failure (ShellStartFailed m) (Some []))
             (clearTimeout (s\<lparr> phase := NoShell \<rparr>))
      else s)"
| "executeCommandWithStream_step p (ShellCallback None) s =
     (if phase s = ShellRequested
      then s\<lparr> phase := ShellOpen, prompt_timer_armed := True \<rparr> else s)"
| "executeCommandWithStream_step p StreamClose s =
     (if phase s = ShellOpen then cleanup (clearTimeout (s\<lparr> phase := ShellClosed \<rparr>)) else s)"
| "executeCommandWithStream_step p (StreamData chunk) s =
     (if phase s = ShellOpen
      then detect_completion (command p) chunk (notify (onData p) chunk (append_chunk chunk s))
      else s)"
| "executeCommandWithStream_step p (StderrData d) s =
     (if phase s = ShellOpen then append_chunk d s else s)"
| "executeCommandWithStream_step p PromptTimerFires s =
     (if prompt_timer_armed s then send_command p (s\<lparr> prompt_timer_armed := False \<rparr>) else s)"
| "executeCommandWithStream_step p ResponseTimerFires s =
     (if response_timer_armed s then no_response p (s\<lparr> response_timer_armed := False \<rparr>) else s)"
| "executeCommandWithStream_step p (ConnError m) s =
     resolveResult (failure (ConnectionError m) (Some [])) (clearTimeout s)"
| "executeCommandWithStream_step p ConnClose s =
     (if \<not> resolved s
      then resolveResult (failure ConnectionClosed (Some (commandOutput s))) (clearTimeout s)
      else clearTimeout s)"
| "executeCommandWithStream_step p TimeoutFires s =
     (if timeout_armed s
      then resolveResult (failure (CommandTimeout (commandTimeout p)) (Some (commandOutput s)))
             (s\<lparr> timeout_armed := False \<rparr>)
      else s)"

subsection \<open>testConnection\<close>

definition prompt_found :: ssh_result where
  "prompt_found =
     \<lparr> success = True, result_output = None, error = None,
       message = Some ''Successfully connected to Cisco VOS CLI'' \<rparr>"

text \<open>\<open>shellTimeout\<close>, the 60000 ms timer of \<open>testConnection\<close>.\<close>

definition shell_timeout :: "shell_state \<Rightarrow> shell_state" where
  "shell_timeout s =
     (if \<not> resolved s then
        if length (commandOutput s) > 0 then
          resolveResult
            \<lparr> success = False, result_output = None, error = Some PromptNotReceived,
              message = Some (take 500 (commandOutput s)) \<rparr>
            (clearTimeout s)
        else resolveResult (failure NoDataReceived None) (clearTimeout s)
      else s)"

fun testConnection_step :: "event \<Rightarrow> shell_state \<Rightarrow> shell_state" where
  "testConnection_step (ConnectThrows m) s =
     (if phase s = Connecting
      then resolveResult (failure (ConnectFailed m) None) (clearTimeout s) else s)"
| "testConnection_step ConnReady s =
     (if phase s = Connecting then s\<lparr> phase := ShellRequested \<rparr> else s)"
| "testConnection_step (ShellCallback (Some m)) s =
     (if phase s = ShellRequested
      then resolveResult (failure (ShellStartFailed m) None) (clearTimeout (s\<lparr> phase := NoShell \<rparr>))
      else s)"
| "testConnection_step (ShellCallback None) s =
     (if phase s = ShellRequested
      then s\<lparr> phase := ShellOpen, prompt_timer_armed := True, response_timer_armed := True \<rparr>
      else s)"
| "testConnection_step StreamClose s =
     (if phase s = ShellOpen then cleanup (clearTimeout (s\<lparr> phase := ShellClosed \<rparr>)) else s)"
| "testConnection_step (StreamData chunk) s =
     (if phase s = ShellOpen then
        (let s1 = append_chunk chunk s in
         if str_includes (commandOutput s1) ''admin:''
         then resolveResult prompt_found (clearTimeout (s1\<lparr> response_timer_armed := False \<rparr>))
         else s1)
      else s)"
| "testConnection_step (StderrData d) s = s"
| "testConnection_step PromptTimerFires s =
     (if prompt_timer_armed s then
        (if \<not> resolved s
         then s\<lparr> prompt_timer_armed := False, written := written s @ [[CHR 0x0D, CHR 0x0A]] \<rparr>
         else s\<lparr> prompt_timer_armed := False \<rparr>)
      else s)"
| "testConnection_step ResponseTimerFires s =
     (if response_timer_armed s then shell_timeout (s\<lparr> response_timer_armed := False \<rparr>) else s)"
| "testConnection_step (ConnError m) s =
     resolveResult (failure (ConnectionError m) None) (clearTimeout s)"
| "testConnection_step ConnClose s =
     (if \<not> resolved s
      then resolveResult (failure ConnectionClosed None) (clearTimeout s)
      else clearTimeout s)"
| "testConnection_step TimeoutFires s =
     (if timeout_armed s
      then resolveResult (failure ConnectionTimeout None) (s\<lparr> timeout_armed := False \<rparr>)
      else s)"

subsection \<open>Runs\<close>

text \<open>
  An invocation is the initial state followed by the events in the order they happen;
  what the caller of the operation gets is \<open>settled\<close> of the state reached.
\<close>

fun run :: "(event \<Rightarrow> shell_state \<Rightarrow> shell_state) \<Rightarrow> event list \<Rightarrow> shell_state \<Rightarrow> shell_state" where
  "run step [] s = s"
| "run step (e # es) s = run step es (step e s)"

definition testConnection :: "event list \<Rightarrow> shell_state" where
  "testConnection es = run testConnection_step es initial"

definition executeCommand :: "command_params \<Rightarrow> event list \<Rightarrow> shell_state" where
  "executeCommand p es = run (executeCommand_step p) es initial"

definition executeCommandWithStream :: "command_params \<Rightarrow> event list \<Rightarrow> shell_state" where
  "executeCommandWithStream p es = run (executeCommandWithStream_step p) es initial"

text \<open>Example commands.\<close>

definition restart_tomcat :: command_params where
  "restart_tomcat =
     \<lparr> command = ''utils service restart Cisco Tomcat'', commandTimeout = 300000,
       onData = True \<rparr>"

definition restart_tftp :: command_params where
  "restart_tftp =
     \<lparr> command = ''utils service restart Cisco Tftp'', commandTimeout = 300000,
       onData = True \<rparr>"

definition show_status :: command_params where
  "show_status = \<lparr> command = ''show status'', commandTimeout = 60000, onData = False \<rparr>"

subsection \<open>The guard and an abandoned invocation\<close>

text \<open>
  What the flag \<open>resolved\<close> keeps true along every run: \<open>conn.end()\<close> has been called
  once if the flag is set and never otherwise, the promise is settled exactly when
  \<open>resolve\<close> has been called, a settled promise has the flag set, and the overall timer is
  not pending once the flag is set.
\<close>

definition guard_inv :: "shell_state \<Rightarrow> bool" where
  "guard_inv s =
     (end_calls s = (if resolved s then 1 else 0) \<and>
      (settled s = None) = (resolve_calls s = 0) \<and>
      (settled s \<noteq> None \<longrightarrow> resolved s) \<and>
      (resolved s \<longrightarrow> \<not> timeout_armed s))"

text \<open>
  An invocation whose stream closed before any result was delivered: the flag is set, the
  overall timer is cleared, and the promise is still pending.
\<close>

definition abandoned :: "shell_state \<Rightarrow> bool" where
  "abandoned s =
     (phase s = ShellClosed \<and> resolved s \<and> settled s = None \<and> \<not> timeout_armed s)"

section \<open>Properties\<close>

lemma str_includes_iff_sublist: "str_includes s pat = sublist pat s"
proof (induction s)
  case Nil
  then show ?case by auto
next
  case (Cons c cs)
  then show ?case by (auto simp: sublist_Cons_right)
qed

lemma encoded_digest_length_43: "encoded_digest_length = 43"
  by (simp add: encoded_digest_length_def base64url_length_def sha256_digest_bytes_def)

text \<open>
  C1, as the code has it: \<open>getDNSRecordValue\<close> returns its argument unchanged. It is a
  function of its argument alone, and its output is in the base64url alphabet, and has the
  length of an encoded SHA-256 digest, exactly when its input is and has.
\<close>

theorem getDNSRecordValue_identity:
  "getDNSRecordValue k = k \<and>
   base64url_alphabet (getDNSRecordValue k) = base64url_alphabet k \<and>
   (length (getDNSRecordValue k) = encoded_digest_length) = (length k = encoded_digest_length)"
  by (simp add: getDNSRecordValue_def)

text \<open>
  C1 as stated fails: a key authorization of the ACME form \<open>token.thumbprint\<close> comes back
  with its dot, which is outside the base64url alphabet, and with its own length, not the
  43 characters of an encoded 32-byte digest.
\<close>

theorem getDNSRecordValue_not_digest:
  "\<not> base64url_alphabet (getDNSRecordValue ''tok.thumb'') \<and>
   length (getDNSRecordValue ''tok.thumb'') \<noteq> encoded_digest_length"
  by (simp add: getDNSRecordValue_def base64url_alphabet_def base64url_char_def
      encoded_digest_length_43)

subsection \<open>ACME orchestrator\<close>

lemma collect_challenges_those:
  "collect_challenges auths acc = Inr cs \<longleftrightarrow>
   (\<exists>ds. those (map dns01_challenge auths) = Some ds \<and> cs = acc @ ds)"
proof (induction auths arbitrary: acc)
  case Nil
  then show ?case by auto
next
  case (Cons a auths)
  then show ?case by (cases "dns01_challenge a") (auto split: option.splits)
qed

lemma collect_challenges_missing:
  "a \<in> set auths \<Longrightarrow> dns01_challenge a = None \<Longrightarrow> \<exists>e. collect_challenges auths acc = Inl e"
proof (induction auths arbitrary: acc)
  case Nil
  then show ?case by simp
next
  case (Cons b auths)
  then show ?case by (cases "dns01_challenge b") auto
qed

lemma those_length: "those xs = Some ys \<Longrightarrow> length ys = length xs"
  by (induction xs arbitrary: ys) (auto split: option.splits)

lemma those_map_nth:
  "those (map f xs) = Some ys \<Longrightarrow> i < length xs \<Longrightarrow> f (xs ! i) = Some (ys ! i)"
proof (induction xs arbitrary: ys i)
  case Nil
  then show ?case by simp
next
  case (Cons x xs)
  then show ?case by (cases i) (auto split: option.splits)
qed

lemma dns01_challenge_type:
  "dns01_challenge a = Some c \<Longrightarrow> ch_type c = ''dns-01'' \<and> c \<in> set (auth_challenges a)"
  unfolding dns01_challenge_def by (auto simp: find_Some_iff)

lemma request_success:
  assumes "requestCertificate lib client csr domains = Inr ord"
  shows "\<exists>cl order auths.
           client = Some cl \<and> domains \<noteq> [] \<and>
           createOrder lib cl domains = Fulfilled order \<and>
           getAuthorizations lib cl order = Fulfilled auths \<and>
           those (map dns01_challenge auths) = Some (co_challenges ord) \<and>
           co_order ord = order \<and> co_csr ord = csr \<and> co_domains ord = domains"
  using assms
  by (auto simp: requestCertificate_def race_def collect_challenges_those
      split: option.splits if_splits sum.splits settle.splits)

lemma request_missing:
  assumes "createOrder lib cl domains = Fulfilled order"
    and "getAuthorizations lib cl order = Fulfilled auths"
    and "a \<in> set auths" and "dns01_challenge a = None"
  shows "\<exists>e. requestCertificate lib (Some cl) csr domains = Inl e"
proof -
  obtain e where "collect_challenges auths [] = Inl e"
    using collect_challenges_missing [OF assms(3,4)] by blast
  with assms(1,2) show ?thesis
    by (simp add: requestCertificate_def race_def)
qed

lemma example_full_request:
  "requestCertificate full_library (Some example_client) ''CSR''
     [''a.example.com'', ''b.example.com''] = Inr example_full_order"
  by (simp add: requestCertificate_def full_library_def race_def dns01_challenge_def
      authorization_a_def authorization_b_def dns_challenge_a_def dns_challenge_b_def
      http_challenge_a_def example_full_order_def)

text \<open>
  C2, as the code has it. Without a client, or with an empty domain list, the call throws.
  When it returns an order, the order and the authorizations were both obtained, and the
  challenge list holds exactly one challenge per authorization the server returned, in
  the order of the authorizations, each the first DNS-01 challenge of its authorization;
  so it holds one per domain of \<open>D\<close> whenever the server returned one authorization per
  domain. When any authorization has no DNS-01 challenge the call throws; a thrown call
  returns no order, hence no partial challenge list.
\<close>

theorem request_all_or_nothing:
  "(\<exists>e. requestCertificate lib None csr domains = Inl e) \<and>
   (\<exists>e. requestCertificate lib client csr [] = Inl e) \<and>
   (requestCertificate lib (Some cl) csr domains = Inr ord \<longrightarrow>
      (\<exists>order auths.
          createOrder lib cl domains = Fulfilled order \<and>
          getAuthorizations lib cl order = Fulfilled auths \<and>
          length (co_challenges ord) = length auths \<and>
          (\<forall>i < length auths.
              dns01_challenge (auths ! i) = Some (co_challenges ord ! i) \<and>
              ch_type (co_challenges ord ! i) = ''dns-01'' \<and>
              co_challenges ord ! i \<in> set (auth_challenges (auths ! i))) \<and>
          (map identifier_value auths = domains \<longrightarrow>
              length (co_challenges ord) = length domains) \<and>
          co_order ord = order \<and> co_csr ord = csr \<and> co_domains ord = domains)) \<and>
   (createOrder lib cl domains = Fulfilled order' \<and>
    getAuthorizations lib cl order' = Fulfilled auths' \<and>
    a \<in> set auths' \<and> dns01_challenge a = None \<longrightarrow>
      (\<exists>e. requestCertificate lib (Some cl) csr domains = Inl e))"
proof (intro conjI impI)
  show "\<exists>e. requestCertificate lib None csr domains = Inl e"
    by (simp add: requestCertificate_def)
next
  show "\<exists>e. requestCertificate lib client csr [] = Inl e"
    by (cases client) (simp_all add: requestCertificate_def)
next
  assume ok: "requestCertificate lib (Some cl) csr domains = Inr ord"
  from request_success [OF ok] obtain order auths where
    o: "createOrder lib cl domains = Fulfilled order"
    and g: "getAuthorizations lib cl order = Fulfilled auths"
    and t: "those (map dns01_challenge auths) = Some (co_challenges ord)"
    and r: "co_order ord = order" "co_csr ord = csr" "co_domains ord = domains"
    by auto
  have len: "length (co_challenges ord) = length auths"
    using those_length [OF t] by simp
  have each: "\<forall>i < length auths.
      dns01_challenge (auths ! i) = Some (co_challenges ord ! i) \<and>
      ch_type (co_challenges ord ! i) = ''dns-01'' \<and>
      co_challenges ord ! i \<in> set (auth_challenges (auths ! i))"
  proof (intro allI impI)
    fix i assume "i < length auths"
    then have "dns01_challenge (auths ! i) = Some (co_challenges ord ! i)"
      using those_map_nth [OF t] by simp
    then show "dns01_challenge (auths ! i) = Some (co_challenges ord ! i) \<and>
      ch_type (co_challenges ord ! i) = ''dns-01'' \<and>
      co_challenges ord ! i \<in> set (auth_challenges (auths ! i))"
      using dns01_challenge_type by blast
  qed
  have dom: "map identifier_value auths = domains \<longrightarrow>
      length (co_challenges ord) = length domains"
    using len by auto
  from o g len each dom r
  show "\<exists>order auths.
          createOrder lib cl domains = Fulfilled order \<and>
          getAuthorizations lib cl order = Fulfilled auths \<and>
          length (co_challenges ord) = length auths \<and>
          (\<forall>i < length auths.
              dns01_challenge (auths ! i) = Some (co_challenges ord ! i) \<and>
              ch_type (co_challenges ord ! i) = ''dns-01'' \<and>
              co_challenges ord ! i \<in> set (auth_challenges (auths ! i))) \<and>
          (map identifier_value auths = domains \<longrightarrow>
              length (co_challenges ord) = length domains) \<and>
          co_order ord = order \<and> co_csr ord = csr \<and> co_domains ord = domains"
    by blast
next
  assume "createOrder lib cl domains = Fulfilled order' \<and>
    getAuthorizations lib cl order' = Fulfilled auths' \<and>
    a \<in> set auths' \<and> dns01_challenge a = None"
  then show "\<exists>e. requestCertificate lib (Some cl) csr domains = Inl e"
    using request_missing by blast
qed

theorem request_all_or_nothing_witness:
  "requestCertificate full_library (Some example_client) ''CSR''
     [''a.example.com'', ''b.example.com''] = Inr example_full_order \<and>
   length (co_challenges example_full_order) = 2 \<and>
   (\<exists>e. requestCertificate http_only_library (Some example_client) ''CSR''
          [''a.example.com'', ''b.example.com''] = Inl e)"
proof -
  have ids: "map identifier_value [authorization_a, authorization_b] =
      [''a.example.com'', ''b.example.com'']"
    by (simp add: authorization_a_def authorization_b_def)
  have full: "createOrder full_library example_client [''a.example.com'', ''b.example.com'']
        = Fulfilled example_order \<and>
      getAuthorizations full_library example_client example_order
        = Fulfilled [authorization_a, authorization_b]"
    by (simp add: full_library_def)
  have http: "createOrder http_only_library example_client [''a.example.com'', ''b.example.com'']
        = Fulfilled example_order \<and>
      getAuthorizations http_only_library example_client example_order
        = Fulfilled [authorization_a, authorization_b_http] \<and>
      authorization_b_http \<in> set [authorization_a, authorization_b_http] \<and>
      dns01_challenge authorization_b_http = None"
    by (simp add: http_only_library_def dns01_challenge_def authorization_b_http_def
        http_challenge_a_def)
  from example_full_request full ids
    request_all_or_nothing [of full_library "''CSR''" "[''a.example.com'', ''b.example.com'']"
      None example_client example_full_order]
  have 1: "length (co_challenges example_full_order) = 2"
    by auto
  from http
    request_all_or_nothing [of http_only_library "''CSR''" "[''a.example.com'', ''b.example.com'']"
      None example_client _ example_order "[authorization_a, authorization_b_http]"
      authorization_b_http]
  have 2: "\<exists>e. requestCertificate http_only_library (Some example_client) ''CSR''
          [''a.example.com'', ''b.example.com''] = Inl e"
    by blast
  from example_full_request 1 2 show ?thesis by simp
qed

text \<open>
  C2 as stated fails: the code never compares the authorizations with the domains. Against
  a server that answers an order for two domains with the authorization of the first one
  only, the call returns an order whose challenge list has one challenge for two domains.
\<close>

theorem request_fewer_challenges_than_domains:
  "requestCertificate short_library (Some example_client) ''CSR''
     [''a.example.com'', ''b.example.com''] =
   Inr \<lparr> co_order = example_order, co_csr = ''CSR'',
         co_domains = [''a.example.com'', ''b.example.com''],
         co_challenges = [dns_challenge_a] \<rparr>"
  by (simp add: requestCertificate_def short_library_def race_def dns01_challenge_def
      authorization_a_def dns_challenge_a_def http_challenge_a_def)

text \<open>
  C8, as the code has it: \<open>loadAccount\<close> never throws. It returns \<open>null\<close>, leaving the
  client field as it was, when nothing is stored, and also when the load itself fails:
  when the persistence collaborator rejects, when the stored record has no account data,
  and when the client cannot be constructed. It returns an account only when that account
  was stored and the client was constructed from it, and then the client field holds
  that client.
\<close>

theorem loadAccount_outcomes:
  "(\<exists>c r. loadAccount lib am client domain cid = (c, Inr r)) \<and>
   (am_loadAccount am cid domain ''letsencrypt'' = Inr None \<longrightarrow>
      loadAccount lib am client domain cid = (client, Inr None)) \<and>
   (am_loadAccount am cid domain ''letsencrypt'' = Inl e \<longrightarrow>
      loadAccount lib am client domain cid = (client, Inr None)) \<and>
   (am_loadAccount am cid domain ''letsencrypt'' = Inr (Some saved) \<and>
    account_data saved = None \<longrightarrow>
      loadAccount lib am client domain cid = (client, Inr None)) \<and>
   (am_loadAccount am cid domain ''letsencrypt'' = Inr (Some saved) \<and>
    account_data saved = Some stored \<and>
    new_Client lib \<lparr> directoryUrl = directory stored, cl_accountKey = accountKey stored,
                     cl_accountUrl = (if accountUrl stored = [] then None
                                      else Some (accountUrl stored)) \<rparr> = Inl e' \<longrightarrow>
      loadAccount lib am client domain cid = (client, Inr None)) \<and>
   (loadAccount lib am client domain cid = (c', Inr (Some acct)) \<longrightarrow>
      (\<exists>cl. am_loadAccount am cid domain ''letsencrypt'' =
               Inr (Some \<lparr> account_data = Some acct \<rparr>) \<and>
            new_Client lib \<lparr> directoryUrl = directory acct, cl_accountKey = accountKey acct,
                             cl_accountUrl = (if accountUrl acct = [] then None
                                              else Some (accountUrl acct)) \<rparr> = Inr cl \<and>
            c' = Some cl))"
proof (intro conjI impI)
  show "\<exists>c r. loadAccount lib am client domain cid = (c, Inr r)"
    by (cases "loadAccount_try lib am client domain cid")
       (auto simp: loadAccount_def split: sum.splits)
next
  assume "am_loadAccount am cid domain ''letsencrypt'' = Inr None"
  then show "loadAccount lib am client domain cid = (client, Inr None)"
    by (simp add: loadAccount_def loadAccount_try_def)
next
  assume "am_loadAccount am cid domain ''letsencrypt'' = Inl e"
  then show "loadAccount lib am client domain cid = (client, Inr None)"
    by (simp add: loadAccount_def loadAccount_try_def)
next
  assume "am_loadAccount am cid domain ''letsencrypt'' = Inr (Some saved) \<and>
    account_data saved = None"
  then show "loadAccount lib am client domain cid = (client, Inr None)"
    by (simp add: loadAccount_def loadAccount_try_def)
next
  assume "am_loadAccount am cid domain ''letsencrypt'' = Inr (Some saved) \<and>
    account_data saved = Some stored \<and>
    new_Client lib \<lparr> directoryUrl = directory stored, cl_accountKey = accountKey stored,
                     cl_accountUrl = (if accountUrl stored = [] then None
                                      else Some (accountUrl stored)) \<rparr> = Inl e'"
  then show "loadAccount lib am client domain cid = (client, Inr None)"
    by (simp add: loadAccount_def loadAccount_try_def)
next
  assume "loadAccount lib am client domain cid = (c', Inr (Some acct))"
  then show "\<exists>cl. am_loadAccount am cid domain ''letsencrypt'' =
               Inr (Some \<lparr> account_data = Some acct \<rparr>) \<and>
            new_Client lib \<lparr> directoryUrl = directory acct, cl_accountKey = accountKey acct,
                             cl_accountUrl = (if accountUrl acct = [] then None
                                              else Some (accountUrl acct)) \<rparr> = Inr cl \<and>
            c' = Some cl"
    by (auto simp: loadAccount_def loadAccount_try_def
        split: sum.splits option.splits prod.splits)
qed

theorem loadAccount_outcomes_witness:
  "loadAccount short_library example_store None ''b.example.com'' 1 = (None, Inr None) \<and>
   loadAccount short_library failing_store None ''a.example.com'' 1 = (None, Inr None) \<and>
   loadAccount short_library example_store None ''a.example.com'' 1 =
     (Some example_client, Inr (Some example_account))"
proof -
  have a: "am_loadAccount example_store 1 ''b.example.com'' ''letsencrypt'' = Inr None"
    by (simp add: example_store_def)
  have b: "am_loadAccount failing_store 1 ''a.example.com'' ''letsencrypt'' = Inl (Error ''EIO'')"
    by (simp add: failing_store_def)
  have c: "loadAccount short_library example_store None ''a.example.com'' 1 =
     (Some example_client, Inr (Some example_account))"
    by (simp add: loadAccount_def loadAccount_try_def example_store_def short_library_def
        example_account_def example_client_def)
  from a loadAccount_outcomes [of short_library example_store None "''b.example.com''" 1]
  have 1: "loadAccount short_library example_store None ''b.example.com'' 1 = (None, Inr None)"
    by blast
  from b loadAccount_outcomes [of short_library failing_store None "''a.example.com''" 1
      "Error ''EIO''"]
  have 2: "loadAccount short_library failing_store None ''a.example.com'' 1 = (None, Inr None)"
    by blast
  from 1 2 c show ?thesis by simp
qed

text \<open>
  C8 as stated fails: when the persistence collaborator fails (here with an I/O error),
  \<open>loadAccount\<close> returns \<open>null\<close>, the same outcome as for an account that was never
  stored; the \<open>catch\<close> block logs the error and does not rethrow it.
\<close>

theorem loadAccount_swallows_failure:
  "am_loadAccount failing_store 1 ''a.example.com'' ''letsencrypt'' = Inl (Error ''EIO'') \<and>
   loadAccount short_library failing_store None ''a.example.com'' 1 = (None, Inr None)"
  by (simp add: loadAccount_def loadAccount_try_def failing_store_def)

subsection \<open>Certificate inspector\<close>

lemma days_floor: "(d::int) div ms_per_day = \<lfloor>real_of_int d / real_of_int ms_per_day\<rfloor>"
  by (simp add: floor_divide_of_int_eq)

lemma days_until_Some:
  "days_until (Some t) (Some n) = Some \<lfloor>real_of_int (t - n) / 86400000\<rfloor>"
proof -
  have "(t - n) div ms_per_day = \<lfloor>real_of_int (t - n) / real_of_int ms_per_day\<rfloor>"
    by (rule days_floor)
  moreover have "real_of_int ms_per_day = 86400000"
    by (simp add: ms_per_day_def)
  ultimately show ?thesis
    by (simp add: days_until_def)
qed

lemma days_negative: "t < n \<Longrightarrow> (t - n) div ms_per_day < 0"
  by (simp add: ms_per_day_def div_neg_pos_less0)

lemma probe_live:
  "tls_connect env h p = TlsSecureConnect (Some c) \<Longrightarrow>
   probe_ports env h (p # rest) seen =
     (seen @ [LiveProbe p], Some (live_info env (clock env (LiveProbe p)) c))"
  by (simp add: getCertificateInfo_def)

lemma probe_skip:
  "no_live_certificate env h p \<Longrightarrow>
   probe_ports env h (p # rest) seen = probe_ports env h rest (seen @ [LiveProbe p])"
  by (auto simp: getCertificateInfo_def no_live_certificate_def
      split: tls_outcome.splits option.splits)

lemma from_file_never_throws: "\<exists>r. getCertificateInfoFromFile env now p = Inr r"
  by (simp add: getCertificateInfoFromFile_def split: sum.splits)

lemma from_file_none:
  "no_local_certificate env p \<Longrightarrow> getCertificateInfoFromFile env now p = Inr None"
  by (auto simp: getCertificateInfoFromFile_def read_certificate_file_def no_local_certificate_def
      split: sum.splits option.splits if_splits)

lemma from_file_parsed:
  "existsSync env p \<Longrightarrow> readFileSync env p = Inr pem \<Longrightarrow> x509_parse env pem = Inr x \<Longrightarrow>
   x_subject x = Some subj \<Longrightarrow> x_issuer x = Some iss \<Longrightarrow>
   getCertificateInfoFromFile env now p = Inr (Some (file_info env now x subj iss))"
  by (simp add: getCertificateInfoFromFile_def read_certificate_file_def)

lemma probe_ports_total:
  "\<exists>seen' r. probe_ports env h ps seen = (seen', r)"
  by (cases "probe_ports env h ps seen") blast

lemma example_primary_path:
  "certPath_in example_env ''stored.example.com'' (certSubDir example_env) = example_pem_path"
  by (simp add: certPath_in_def certSubDir_def isStaging_def accountsDir_def example_env_def
      posix_join_def example_pem_path_def)

lemma example_none_paths:
  "certPath_in example_env ''none.example.com'' (certSubDir example_env)
     = ''/data/accounts/none.example.com/staging/certificate.pem'' \<and>
   certPath_in example_env ''none.example.com'' (alternateCertSubDir example_env)
     = ''/data/accounts/none.example.com/prod/certificate.pem''"
  by (simp add: certPath_in_def certSubDir_def alternateCertSubDir_def isStaging_def
      accountsDir_def example_env_def posix_join_def)

text \<open>
  The order of the sources, where the local PEM can be turned into a snapshot: the ports
  are probed in the order 443, 8443, 9443 and the first one whose peer presents a
  certificate gives the result, with no later source consulted. When no port yields a
  certificate and the PEM of the configured subdirectory parses to a certificate with a
  subject and an issuer, the result is the snapshot of that PEM, and the sources consulted
  are the three ports and that one file. The configured subdirectory is \<open>staging\<close>
  unless \<open>LETSENCRYPT_STAGING\<close> is \<open>'false'\<close>, then \<open>prod\<close>.
\<close>

lemma configured_subdirectory:
  "certSubDir env = (if env_LETSENCRYPT_STAGING env = Some ''false'' then ''prod'' else ''staging'') \<and>
   alternateCertSubDir env =
     (if env_LETSENCRYPT_STAGING env = Some ''false'' then ''staging'' else ''prod'')"
  by (simp add: certSubDir_def alternateCertSubDir_def isStaging_def)

lemma fallback_order:
  "(tls_connect env h 443 = TlsSecureConnect (Some c) \<longrightarrow>
      getCertificateInfoWithFallback env h =
        ([LiveProbe 443], Inr (Some (live_info env (clock env (LiveProbe 443)) c)))) \<and>
   (no_live_certificate env h 443 \<and> tls_connect env h 8443 = TlsSecureConnect (Some c) \<longrightarrow>
      getCertificateInfoWithFallback env h =
        ([LiveProbe 443, LiveProbe 8443],
         Inr (Some (live_info env (clock env (LiveProbe 8443)) c)))) \<and>
   (no_live_certificate env h 443 \<and> no_live_certificate env h 8443 \<and>
    tls_connect env h 9443 = TlsSecureConnect (Some c) \<longrightarrow>
      getCertificateInfoWithFallback env h =
        ([LiveProbe 443, LiveProbe 8443, LiveProbe 9443],
         Inr (Some (live_info env (clock env (LiveProbe 9443)) c)))) \<and>
   (no_live_certificate env h 443 \<and> no_live_certificate env h 8443 \<and>
    no_live_certificate env h 9443 \<and>
    existsSync env (certPath_in env h (certSubDir env)) \<and>
    readFileSync env (certPath_in env h (certSubDir env)) = Inr pem \<and>
    x509_parse env pem = Inr x \<and> x_subject x = Some subj \<and> x_issuer x = Some iss \<longrightarrow>
      getCertificateInfoWithFallback env h =
        ([LiveProbe 443, LiveProbe 8443, LiveProbe 9443,
          LocalFile (certPath_in env h (certSubDir env))],
         Inr (Some (file_info env (clock env (LocalFile (certPath_in env h (certSubDir env))))
                      x subj iss))))"
proof (intro conjI impI)
  assume "tls_connect env h 443 = TlsSecureConnect (Some c)"
  then show "getCertificateInfoWithFallback env h =
        ([LiveProbe 443], Inr (Some (live_info env (clock env (LiveProbe 443)) c)))"
    by (simp add: getCertificateInfoWithFallback_def ports_def probe_live del: probe_ports.simps(2))
next
  assume "no_live_certificate env h 443 \<and> tls_connect env h 8443 = TlsSecureConnect (Some c)"
  then show "getCertificateInfoWithFallback env h =
        ([LiveProbe 443, LiveProbe 8443],
         Inr (Some (live_info env (clock env (LiveProbe 8443)) c)))"
    by (simp add: getCertificateInfoWithFallback_def ports_def probe_live probe_skip
        del: probe_ports.simps(2))
next
  assume "no_live_certificate env h 443 \<and> no_live_certificate env h 8443 \<and>
    tls_connect env h 9443 = TlsSecureConnect (Some c)"
  then show "getCertificateInfoWithFallback env h =
        ([LiveProbe 443, LiveProbe 8443, LiveProbe 9443],
         Inr (Some (live_info env (clock env (LiveProbe 9443)) c)))"
    by (simp add: getCertificateInfoWithFallback_def ports_def probe_live probe_skip
        del: probe_ports.simps(2))
next
  let ?P = "certPath_in env h (certSubDir env)"
  assume a: "no_live_certificate env h 443 \<and> no_live_certificate env h 8443 \<and>
    no_live_certificate env h 9443 \<and> existsSync env ?P \<and> readFileSync env ?P = Inr pem \<and>
    x509_parse env pem = Inr x \<and> x_subject x = Some subj \<and> x_issuer x = Some iss"
  then have f: "getCertificateInfoFromFile env (clock env (LocalFile ?P)) ?P =
      Inr (Some (file_info env (clock env (LocalFile ?P)) x subj iss))"
    by (simp add: from_file_parsed)
  from a have p: "probe_ports env h ports [] =
      ([LiveProbe 443, LiveProbe 8443, LiveProbe 9443], None)"
    by (simp add: ports_def probe_skip del: probe_ports.simps(2))
  show "getCertificateInfoWithFallback env h =
        ([LiveProbe 443, LiveProbe 8443, LiveProbe 9443, LocalFile ?P],
         Inr (Some (file_info env (clock env (LocalFile ?P)) x subj iss)))"
    by (simp add: getCertificateInfoWithFallback_def p f Let_def)
qed

lemma fallback_order_witness:
  "getCertificateInfoWithFallback example_env ''live.example.com'' =
     ([LiveProbe 443, LiveProbe 8443],
      Inr (Some (live_info example_env 1700000000000 example_peer))) \<and>
   getCertificateInfoWithFallback example_env ''stored.example.com'' =
     ([LiveProbe 443, LiveProbe 8443, LiveProbe 9443, LocalFile example_pem_path],
      Inr (Some (file_info example_env 1700000000000 example_x509
                   (''CN=stored.example.com'' @ [CHR 0x0A] @ ''O=Example'') ''CN=R3'')))"
proof -
  have live: "no_live_certificate example_env ''live.example.com'' 443 \<and>
      tls_connect example_env ''live.example.com'' 8443 = TlsSecureConnect (Some example_peer)"
    by (simp add: no_live_certificate_def example_env_def)
  have stored: "no_live_certificate example_env ''stored.example.com'' 443 \<and>
      no_live_certificate example_env ''stored.example.com'' 8443 \<and>
      no_live_certificate example_env ''stored.example.com'' 9443 \<and>
      existsSync example_env example_pem_path \<and>
      readFileSync example_env example_pem_path = Inr ''PEM'' \<and>
      x509_parse example_env ''PEM'' = Inr example_x509 \<and>
      x_subject example_x509 = Some (''CN=stored.example.com'' @ [CHR 0x0A] @ ''O=Example'') \<and>
      x_issuer example_x509 = Some ''CN=R3''"
    by (simp add: no_live_certificate_def example_env_def example_x509_def)
  have c: "clock example_env = (\<lambda>a. 1700000000000)"
    by (simp add: example_env_def)
  from live
    fallback_order [of example_env "''live.example.com''" example_peer]
  have 1: "getCertificateInfoWithFallback example_env ''live.example.com'' =
     ([LiveProbe 443, LiveProbe 8443],
      Inr (Some (live_info example_env 1700000000000 example_peer)))"
    by (simp add: c)
  from stored
    fallback_order [of example_env "''stored.example.com''" _ "''PEM''" example_x509
      "''CN=stored.example.com'' @ [CHR 0x0A] @ ''O=Example''" "''CN=R3''"]
  have 2: "getCertificateInfoWithFallback example_env ''stored.example.com'' =
     ([LiveProbe 443, LiveProbe 8443, LiveProbe 9443, LocalFile example_pem_path],
      Inr (Some (file_info example_env 1700000000000 example_x509
                   (''CN=stored.example.com'' @ [CHR 0x0A] @ ''O=Example'') ''CN=R3'')))"
    by (simp add: c example_primary_path)
  from 1 2 show ?thesis by simp
qed

lemma subjectless_paths:
  "certPath_in subjectless_env ''stored.example.com'' (certSubDir subjectless_env)
     = ''/data/accounts/stored.example.com/staging/certificate.pem'' \<and>
   certPath_in subjectless_env ''stored.example.com'' (alternateCertSubDir subjectless_env)
     = ''/data/accounts/stored.example.com/prod/certificate.pem''"
  by (simp add: certPath_in_def certSubDir_def alternateCertSubDir_def isStaging_def
      accountsDir_def subjectless_env_def example_env_def posix_join_def)

lemma subjectless_probes:
  "probe_ports subjectless_env ''stored.example.com'' ports [] =
     ([LiveProbe 443, LiveProbe 8443, LiveProbe 9443], None)"
  by (simp add: ports_def getCertificateInfo_def subjectless_env_def example_env_def)

lemma subjectless_staging_file:
  "getCertificateInfoFromFile subjectless_env 1700000000000
     ''/data/accounts/stored.example.com/staging/certificate.pem'' = Inr None"
  by (simp add: getCertificateInfoFromFile_def read_certificate_file_def subjectless_env_def
      example_env_def example_pem_path_def example_prod_path_def subjectless_x509_def)

lemma example_dn:
  "dn_name_info (parse_dn (''CN=stored.example.com'' @ [CHR 0x0A] @ ''O=Example'')) =
     \<lparr> ni_CN = ''stored.example.com'', ni_O = ''Example'', ni_OU = ''<Not Part Of Certificate>'' \<rparr> \<and>
   dn_name_info (parse_dn ''CN=R3'') =
     \<lparr> ni_CN = ''R3'', ni_O = ''<Not Part Of Certificate>'',
       ni_OU = ''<Not Part Of Certificate>'' \<rparr>"
  by (simp add: dn_name_info_def parse_dn_def dn_entry_def or_else_def not_part_def)

lemma subjectless_prod_file:
  "getCertificateInfoFromFile subjectless_env 1700000000000
     ''/data/accounts/stored.example.com/prod/certificate.pem'' =
   Inr (Some
     \<lparr> subject = \<lparr> ni_CN = ''stored.example.com'', ni_O = ''Example'',
                     ni_OU = ''<Not Part Of Certificate>'' \<rparr>,
       issuer = \<lparr> ni_CN = ''R3'', ni_O = ''<Not Part Of Certificate>'',
                    ni_OU = ''<Not Part Of Certificate>'' \<rparr>,
       validFrom = ''a date'', validTo = ''a date'',
       fingerprint = ''AA:BB'', fingerprint256 = ''CC:DD'', serialNumber = ''02'',
       subjectAltNames = [], isValid = False, daysUntilExpiry = Some (- 1) \<rparr>)"
  using example_dn
  by (simp add: getCertificateInfoFromFile_def read_certificate_file_def subjectless_env_def
      example_env_def example_pem_path_def example_prod_path_def example_x509_def
      file_info_def Let_def date_ge_def date_le_def days_until_def ms_per_day_def
      or_else_def alt_names_def)

text \<open>
  C6: a PEM of the configured subdirectory that the X.509 parser accepts is not always
  returned. For a certificate with an empty subject the parser gives no \<open>subject\<close>
  string, \<open>cert.subject.split\<close> throws, the \<open>catch\<close> block returns \<open>null\<close>, and the
  fallback goes on to the alternate subdirectory: here the staging PEM exists, is read and
  is parsed, and the result is the certificate of the production subdirectory. The live
  probe reads the same field as \<open>cert.subject?.CN\<close> and so accepts such a certificate.
\<close>

theorem subjectless_pem_falls_through:
  "existsSync subjectless_env ''/data/accounts/stored.example.com/staging/certificate.pem'' \<and>
   readFileSync subjectless_env ''/data/accounts/stored.example.com/staging/certificate.pem''
     = Inr ''SAN-ONLY PEM'' \<and>
   x509_parse subjectless_env ''SAN-ONLY PEM'' = Inr subjectless_x509 \<and>
   getCertificateInfoWithFallback subjectless_env ''stored.example.com'' =
     ([LiveProbe 443, LiveProbe 8443, LiveProbe 9443,
       LocalFile ''/data/accounts/stored.example.com/staging/certificate.pem'',
       LocalFile ''/data/accounts/stored.example.com/prod/certificate.pem''],
      Inr (Some
        \<lparr> subject = \<lparr> ni_CN = ''stored.example.com'', ni_O = ''Example'',
                        ni_OU = ''<Not Part Of Certificate>'' \<rparr>,
          issuer = \<lparr> ni_CN = ''R3'', ni_O = ''<Not Part Of Certificate>'',
                       ni_OU = ''<Not Part Of Certificate>'' \<rparr>,
          validFrom = ''a date'', validTo = ''a date'',
          fingerprint = ''AA:BB'', fingerprint256 = ''CC:DD'', serialNumber = ''02'',
          subjectAltNames = [], isValid = False, daysUntilExpiry = Some (- 1) \<rparr>))"
proof -
  have c: "clock subjectless_env = (\<lambda>a. 1700000000000)"
    by (simp add: subjectless_env_def example_env_def)
  have e: "existsSync subjectless_env ''/data/accounts/stored.example.com/staging/certificate.pem'' \<and>
      readFileSync subjectless_env ''/data/accounts/stored.example.com/staging/certificate.pem''
        = Inr ''SAN-ONLY PEM'' \<and>
      x509_parse subjectless_env ''SAN-ONLY PEM'' = Inr subjectless_x509"
    by (simp add: subjectless_env_def example_pem_path_def)
  have r: "getCertificateInfoWithFallback subjectless_env ''stored.example.com'' =
     ([LiveProbe 443, LiveProbe 8443, LiveProbe 9443,
       LocalFile ''/data/accounts/stored.example.com/staging/certificate.pem'',
       LocalFile ''/data/accounts/stored.example.com/prod/certificate.pem''],
      Inr (Some
        \<lparr> subject = \<lparr> ni_CN = ''stored.example.com'', ni_O = ''Example'',
                        ni_OU = ''<Not Part Of Certificate>'' \<rparr>,
          issuer = \<lparr> ni_CN = ''R3'', ni_O = ''<Not Part Of Certificate>'',
                       ni_OU = ''<Not Part Of Certificate>'' \<rparr>,
          validFrom = ''a date'', validTo = ''a date'',
          fingerprint = ''AA:BB'', fingerprint256 = ''CC:DD'', serialNumber = ''02'',
          subjectAltNames = [], isValid = False, daysUntilExpiry = Some (- 1) \<rparr>))"
    by (simp add: getCertificateInfoWithFallback_def subjectless_probes subjectless_paths c
        subjectless_staging_file subjectless_prod_file Let_def)
  from e r show ?thesis by simp
qed

text \<open>
  C7: \<open>getCertificateInfoWithFallback\<close> never throws: its promise always resolves.
  Whatever way each of the three probes fails (socket error, timeout, an exception of
  the callback or of \<open>tls.connect\<close> itself, an empty certificate), and whatever way each
  of the two files yields nothing (missing, unreadable, unparseable), the next source is
  tried and in the end the result is \<open>null\<close>.
\<close>

theorem inspector_never_throws:
  "(\<exists>seen r. getCertificateInfoWithFallback env h = (seen, Inr r)) \<and>
   ((\<forall>p \<in> set ports. no_live_certificate env h p) \<and>
    no_local_certificate env (certPath_in env h (certSubDir env)) \<and>
    no_local_certificate env (certPath_in env h (alternateCertSubDir env)) \<longrightarrow>
      getCertificateInfoWithFallback env h =
        ([LiveProbe 443, LiveProbe 8443, LiveProbe 9443,
          LocalFile (certPath_in env h (certSubDir env)),
          LocalFile (certPath_in env h (alternateCertSubDir env))], Inr None))"
proof (intro conjI impI)
  let ?P = "certPath_in env h (certSubDir env)"
  let ?A = "certPath_in env h (alternateCertSubDir env)"
  obtain s r where pr: "probe_ports env h ports [] = (s, r)"
    using probe_ports_total by blast
  obtain r1 where f1: "getCertificateInfoFromFile env (clock env (LocalFile ?P)) ?P = Inr r1"
    using from_file_never_throws by blast
  obtain r2 where f2: "getCertificateInfoFromFile env (clock env (LocalFile ?A)) ?A = Inr r2"
    using from_file_never_throws by blast
  show "\<exists>seen r. getCertificateInfoWithFallback env h = (seen, Inr r)"
    by (cases r; cases r1) (simp_all add: getCertificateInfoWithFallback_def pr f1 f2 Let_def)
next
  let ?P = "certPath_in env h (certSubDir env)"
  let ?A = "certPath_in env h (alternateCertSubDir env)"
  assume a: "(\<forall>p \<in> set ports. no_live_certificate env h p) \<and>
    no_local_certificate env ?P \<and> no_local_certificate env ?A"
  then have p: "probe_ports env h ports [] =
      ([LiveProbe 443, LiveProbe 8443, LiveProbe 9443], None)"
    by (simp add: ports_def probe_skip del: probe_ports.simps(2))
  from a show "getCertificateInfoWithFallback env h =
        ([LiveProbe 443, LiveProbe 8443, LiveProbe 9443, LocalFile ?P, LocalFile ?A], Inr None)"
    by (simp add: getCertificateInfoWithFallback_def p from_file_none Let_def)
qed

theorem inspector_never_throws_witness:
  "getCertificateInfoWithFallback example_env ''none.example.com'' =
     ([LiveProbe 443, LiveProbe 8443, LiveProbe 9443,
       LocalFile ''/data/accounts/none.example.com/staging/certificate.pem'',
       LocalFile ''/data/accounts/none.example.com/prod/certificate.pem''], Inr None)"
proof -
  have "(\<forall>p \<in> set ports. no_live_certificate example_env ''none.example.com'' p) \<and>
    no_local_certificate example_env
      (certPath_in example_env ''none.example.com'' (certSubDir example_env)) \<and>
    no_local_certificate example_env
      (certPath_in example_env ''none.example.com'' (alternateCertSubDir example_env))"
    by (simp add: example_none_paths)
       (simp add: ports_def no_live_certificate_def no_local_certificate_def example_env_def
          example_pem_path_def)
  with inspector_never_throws [of example_env "''none.example.com''"]
  show ?thesis by (simp add: example_none_paths)
qed

text \<open>
  C9: a snapshot produced from a certificate whose two validity dates are valid dates, by
  the live probe or by the file parse, at observation time \<open>now\<close>: \<open>isValid\<close> is true
  exactly when \<open>validFrom \<le> now \<le> validTo\<close>, both bounds included, and
  \<open>daysUntilExpiry\<close> is the floor of \<open>(validTo - now)\<close> in days of 86400000 ms, which is
  negative once the certificate has expired.
\<close>

theorem snapshot_validity:
  "(tls_connect env h p = TlsSecureConnect (Some cert) \<and>
    pc_valid_from cert = Some f \<and> pc_valid_to cert = Some t \<longrightarrow>
      (\<exists>ci. getCertificateInfo env now h p = Inr (Some ci) \<and>
            isValid ci = (f \<le> now \<and> now \<le> t) \<and>
            daysUntilExpiry ci = Some \<lfloor>real_of_int (t - now) / 86400000\<rfloor>)) \<and>
   (existsSync env certPath \<and> readFileSync env certPath = Inr pem \<and>
    x509_parse env pem = Inr x \<and> x_subject x = Some subj \<and> x_issuer x = Some iss \<and>
    x_validFrom x = Some f \<and> x_validTo x = Some t \<longrightarrow>
      (\<exists>ci. getCertificateInfoFromFile env now certPath = Inr (Some ci) \<and>
            isValid ci = (f \<le> now \<and> now \<le> t) \<and>
            daysUntilExpiry ci = Some \<lfloor>real_of_int (t - now) / 86400000\<rfloor>)) \<and>
   (t < now \<longrightarrow> \<lfloor>real_of_int (t - now) / 86400000\<rfloor> < 0)"
proof (intro conjI impI)
  assume "tls_connect env h p = TlsSecureConnect (Some cert) \<and>
    pc_valid_from cert = Some f \<and> pc_valid_to cert = Some t"
  then show "\<exists>ci. getCertificateInfo env now h p = Inr (Some ci) \<and>
            isValid ci = (f \<le> now \<and> now \<le> t) \<and>
            daysUntilExpiry ci = Some \<lfloor>real_of_int (t - now) / 86400000\<rfloor>"
    by (simp add: getCertificateInfo_def live_info_def Let_def date_ge_def date_le_def
        days_until_Some)
next
  assume a: "existsSync env certPath \<and> readFileSync env certPath = Inr pem \<and>
    x509_parse env pem = Inr x \<and> x_subject x = Some subj \<and> x_issuer x = Some iss \<and>
    x_validFrom x = Some f \<and> x_validTo x = Some t"
  then have "getCertificateInfoFromFile env now certPath =
      Inr (Some (file_info env now x subj iss))"
    by (simp add: from_file_parsed)
  with a show "\<exists>ci. getCertificateInfoFromFile env now certPath = Inr (Some ci) \<and>
            isValid ci = (f \<le> now \<and> now \<le> t) \<and>
            daysUntilExpiry ci = Some \<lfloor>real_of_int (t - now) / 86400000\<rfloor>"
    by (simp add: file_info_def Let_def date_ge_def date_le_def days_until_Some)
next
  assume "t < now"
  then show "\<lfloor>real_of_int (t - now) / 86400000\<rfloor> < 0"
    using days_negative [of t now] days_floor [of "t - now"]
    by (simp add: ms_per_day_def)
qed

theorem snapshot_validity_witness:
  "(\<exists>ci. getCertificateInfo example_env 1700000000000 ''live.example.com'' 8443 = Inr (Some ci) \<and>
         isValid ci \<and> daysUntilExpiry ci = Some 57) \<and>
   (\<exists>ci. getCertificateInfoFromFile example_env 1700000000000 example_pem_path = Inr (Some ci) \<and>
         \<not> isValid ci \<and> daysUntilExpiry ci = Some (- 1))"
proof -
  have live: "tls_connect example_env ''live.example.com'' 8443 = TlsSecureConnect (Some example_peer) \<and>
      pc_valid_from example_peer = Some 1690000000000 \<and>
      pc_valid_to example_peer = Some 1705000000000"
    by (simp add: example_env_def example_peer_def)
  have stored: "existsSync example_env example_pem_path \<and>
      readFileSync example_env example_pem_path = Inr ''PEM'' \<and>
      x509_parse example_env ''PEM'' = Inr example_x509 \<and>
      x_subject example_x509 = Some (''CN=stored.example.com'' @ [CHR 0x0A] @ ''O=Example'') \<and>
      x_issuer example_x509 = Some ''CN=R3'' \<and>
      x_validFrom example_x509 = Some 1690000000000 \<and>
      x_validTo example_x509 = Some 1699999999999"
    by (simp add: example_env_def example_x509_def)
  from live
    snapshot_validity [of example_env "''live.example.com''" 8443 example_peer
      1690000000000 1705000000000 1700000000000]
  have 1: "\<exists>ci. getCertificateInfo example_env 1700000000000 ''live.example.com'' 8443 = Inr (Some ci) \<and>
         isValid ci \<and> daysUntilExpiry ci = Some 57"
    by simp
  from stored
    snapshot_validity [of example_env _ _ _ 1690000000000 1699999999999 1700000000000
      example_pem_path "''PEM''" example_x509
      "''CN=stored.example.com'' @ [CHR 0x0A] @ ''O=Example''" "''CN=R3''"]
  have 2: "\<exists>ci. getCertificateInfoFromFile example_env 1700000000000 example_pem_path = Inr (Some ci) \<and>
         \<not> isValid ci \<and> daysUntilExpiry ci = Some (- 1)"
    by simp
  from 1 2 show ?thesis by simp
qed

subsection \<open>Remote shell automaton\<close>

lemmas handler_defs =
  cleanup_def resolve_def resolveResult_def clearTimeout_def detect_completion_def
  append_chunk_def notify_def send_command_def no_response_def shell_timeout_def

lemma guard_inv_initial: "guard_inv initial"
  by (simp add: guard_inv_def initial_def)

lemma guard_inv_executeCommand_step:
  "guard_inv s \<Longrightarrow> guard_inv (executeCommand_step p e s)"
  by (cases "(p, e, s)" rule: executeCommand_step.cases)
     (auto simp: guard_inv_def handler_defs split: option.splits)

lemma guard_inv_stream_step:
  "guard_inv s \<Longrightarrow> guard_inv (executeCommandWithStream_step p e s)"
  by (cases "(p, e, s)" rule: executeCommandWithStream_step.cases)
     (auto simp: guard_inv_def handler_defs split: option.splits)

lemma guard_inv_testConnection_step:
  "guard_inv s \<Longrightarrow> guard_inv (testConnection_step e s)"
  by (cases "(e, s)" rule: testConnection_step.cases)
     (auto simp: guard_inv_def handler_defs Let_def split: option.splits)

lemma guard_inv_run:
  "(\<And>e s. guard_inv s \<Longrightarrow> guard_inv (step e s)) \<Longrightarrow> guard_inv s \<Longrightarrow> guard_inv (run step es s)"
  by (induction es arbitrary: s) auto

lemma settled_executeCommand_step:
  "settled s = Some r \<Longrightarrow> settled (executeCommand_step p e s) = Some r"
  by (cases "(p, e, s)" rule: executeCommand_step.cases)
     (auto simp: handler_defs split: option.splits)

lemma settled_stream_step:
  "settled s = Some r \<Longrightarrow> settled (executeCommandWithStream_step p e s) = Some r"
  by (cases "(p, e, s)" rule: executeCommandWithStream_step.cases)
     (auto simp: handler_defs split: option.splits)

lemma settled_testConnection_step:
  "settled s = Some r \<Longrightarrow> settled (testConnection_step e s) = Some r"
  by (cases "(e, s)" rule: testConnection_step.cases)
     (auto simp: handler_defs Let_def split: option.splits)

lemma settled_run:
  "(\<And>e s. settled s = Some r \<Longrightarrow> settled (step e s) = Some r) \<Longrightarrow>
   settled s = Some r \<Longrightarrow> settled (run step es s) = Some r"
  by (induction es arbitrary: s) auto

lemma run_append: "run step (es @ fs) s = run step fs (run step es s)"
  by (induction es arbitrary: s) auto

text \<open>
  Along every run of the three operations \<open>conn.end()\<close> is called at most once, and a
  result that has been delivered is not changed by any later event.
\<close>

lemma teardown_at_most_once:
  "end_calls (testConnection es) \<le> 1 \<and> end_calls (executeCommand p es) \<le> 1 \<and>
   end_calls (executeCommandWithStream p es) \<le> 1"
proof -
  have "guard_inv (testConnection es)"
    unfolding testConnection_def
    by (rule guard_inv_run [OF guard_inv_testConnection_step guard_inv_initial])
  moreover have "guard_inv (executeCommand p es)"
    unfolding executeCommand_def
    by (rule guard_inv_run [OF guard_inv_executeCommand_step guard_inv_initial])
  moreover have "guard_inv (executeCommandWithStream p es)"
    unfolding executeCommandWithStream_def
    by (rule guard_inv_run [OF guard_inv_stream_step guard_inv_initial])
  ultimately show ?thesis
    by (simp add: guard_inv_def split: if_splits)
qed

lemma late_events_ignored:
  "settled (testConnection es) = Some r \<longrightarrow> settled (testConnection (es @ fs)) = Some r"
  "settled (executeCommand p es) = Some r \<longrightarrow> settled (executeCommand p (es @ fs)) = Some r"
  "settled (executeCommandWithStream p es) = Some r \<longrightarrow>
   settled (executeCommandWithStream p (es @ fs)) = Some r"
proof -
  show "settled (testConnection es) = Some r \<longrightarrow> settled (testConnection (es @ fs)) = Some r"
    using settled_run [OF settled_testConnection_step]
    by (simp add: testConnection_def run_append)
  show "settled (executeCommand p es) = Some r \<longrightarrow>
      settled (executeCommand p (es @ fs)) = Some r"
    using settled_run [OF settled_executeCommand_step]
    by (simp add: executeCommand_def run_append)
  show "settled (executeCommandWithStream p es) = Some r \<longrightarrow>
      settled (executeCommandWithStream p (es @ fs)) = Some r"
    using settled_run [OF settled_stream_step]
    by (simp add: executeCommandWithStream_def run_append)
qed

lemma executeCommand_snoc:
  "executeCommand p (es @ [e]) = executeCommand_step p e (executeCommand p es)"
  by (simp add: executeCommand_def run_append)

lemma executeCommandWithStream_snoc:
  "executeCommandWithStream p (es @ [e]) =
     executeCommandWithStream_step p e (executeCommandWithStream p es)"
  by (simp add: executeCommandWithStream_def run_append)

lemma shell_open_state:
  "executeCommand p [ConnReady, ShellCallback None, PromptTimerFires] =
     initial\<lparr> phase := ShellOpen, written := [command p @ [CHR 0x0D, CHR 0x0A]],
              response_timer_armed := True \<rparr>"
  by (simp add: executeCommand_def initial_def send_command_def)

lemma stream_timeout_keeps_output:
  "timeout_armed s \<Longrightarrow> settled s = None \<Longrightarrow>
   settled (executeCommandWithStream_step p TimeoutFires s) =
     Some (failure (CommandTimeout (commandTimeout p)) (Some (commandOutput s)))"
  by (simp add: handler_defs)

lemma response_timer_keeps_output:
  "response_timer_armed s \<Longrightarrow> \<not> resolved s \<Longrightarrow> settled s = None \<Longrightarrow>
   settled (executeCommand_step p ResponseTimerFires s) =
     Some (failure (NoResponse (remainingTime (commandTimeout p))) (Some (commandOutput s))) \<and>
   settled (executeCommandWithStream_step p ResponseTimerFires s) =
     Some (failure (NoResponse (remainingTime (commandTimeout p))) (Some (commandOutput s)))"
  by (simp add: handler_defs)

lemma executeCommand_timeout_no_output:
  "timeout_armed s \<Longrightarrow> settled s = None \<Longrightarrow>
   settled (executeCommand_step p TimeoutFires s) =
     Some (failure (CommandTimeout (commandTimeout p)) None)"
  by (simp add: handler_defs)

text \<open>
  C3: the overall timer of \<open>executeCommand\<close> resolves with an error and no \<open>output\<close>
  field. After the prompt and the echo of the command have arrived, the timer fires: the
  buffer holds the two chunks and the result of \<open>executeCommand\<close> carries none of it,
  while \<open>executeCommandWithStream\<close> on the same events returns the buffer. The second
  timer of both operations and the overall timer of \<open>executeCommandWithStream\<close> keep the
  output (the three lemmas above).
\<close>

theorem executeCommand_timeout_drops_output:
  "commandOutput (executeCommand show_status
      [ConnReady, ShellCallback None, StreamData ''admin:'', PromptTimerFires,
       StreamData ''show status'', TimeoutFires]) = ''admin:show status'' \<and>
   settled (executeCommand show_status
      [ConnReady, ShellCallback None, StreamData ''admin:'', PromptTimerFires,
       StreamData ''show status'', TimeoutFires]) =
     Some \<lparr> success = False, result_output = None, error = Some (CommandTimeout 60000),
            message = None \<rparr> \<and>
   settled (executeCommandWithStream show_status
      [ConnReady, ShellCallback None, StreamData ''admin:'', PromptTimerFires,
       StreamData ''show status'', TimeoutFires]) =
     Some \<lparr> success = False, result_output = Some ''admin:show status'',
            error = Some (CommandTimeout 60000), message = None \<rparr>"
  by (simp add: executeCommand_def executeCommandWithStream_def initial_def show_status_def
      handler_defs failure_def)

lemma detect_restart:
  assumes "str_includes cmd ''service restart''" and "str_includes cmd ''Cisco Tomcat''"
    and "settled s = None"
  shows "settled (detect_completion cmd chunk s) =
     (if str_includes (commandOutput s) ''[STARTED]'' \<and> str_includes chunk ''admin:''
      then Some (succeeded (commandOutput s))
      else if str_includes (commandOutput s) ''[FAILED]'' \<or> str_includes (commandOutput s) ''ERROR''
      then Some (failure ServiceRestartFailed (Some (commandOutput s)))
      else None)"
  using assms by (simp add: handler_defs)

lemma detect_restart_timer:
  assumes "str_includes cmd ''service restart''" and "str_includes cmd ''Cisco Tomcat''"
    and "settled s = None" and "settled (detect_completion cmd chunk s) \<noteq> None"
  shows "\<not> timeout_armed (detect_completion cmd chunk s)"
  using assms by (auto simp: handler_defs split: if_splits)

lemma restart_tomcat_command:
  "str_includes (command restart_tomcat) ''service restart'' \<and>
   str_includes (command restart_tomcat) ''Cisco Tomcat''"
  by (simp add: restart_tomcat_def)

text \<open>
  C4, as the code has it. For a command whose text contains both \<open>service restart\<close> and
  \<open>Cisco Tomcat\<close>, on each chunk of the primary stream that arrives while no result has
  been delivered: the invocation resolves success, with the whole buffer, exactly when
  the buffer contains \<open>[STARTED]\<close> and the chunk contains \<open>admin:\<close>; otherwise it
  resolves failure, with the whole buffer, exactly when the buffer contains \<open>[FAILED]\<close>
  or \<open>ERROR\<close>; otherwise it stays pending. A resolution clears the overall timer, so no
  timer is waited for. In particular \<open>[FAILED]\<close> in a buffer without \<open>[STARTED]\<close> gives
  failure at that chunk.
\<close>

theorem restart_detection:
  "str_includes (command p) ''service restart'' \<and> str_includes (command p) ''Cisco Tomcat'' \<and>
   phase s = ShellOpen \<and> settled s = None \<and>
   (step = executeCommand_step p \<or> step = executeCommandWithStream_step p) \<longrightarrow>
     settled (step (StreamData chunk) s) =
       (if str_includes (commandOutput s @ chunk) ''[STARTED]'' \<and> str_includes chunk ''admin:''
        then Some (succeeded (commandOutput s @ chunk))
        else if str_includes (commandOutput s @ chunk) ''[FAILED]'' \<or>
                str_includes (commandOutput s @ chunk) ''ERROR''
        then Some (failure ServiceRestartFailed (Some (commandOutput s @ chunk)))
        else None) \<and>
     (settled (step (StreamData chunk) s) \<noteq> None \<longrightarrow>
        \<not> timeout_armed (step (StreamData chunk) s)) \<and>
     (str_includes (commandOutput s @ chunk) ''[FAILED]'' \<and>
      \<not> str_includes (commandOutput s @ chunk) ''[STARTED]'' \<longrightarrow>
        settled (step (StreamData chunk) s) =
          Some (failure ServiceRestartFailed (Some (commandOutput s @ chunk))))"
proof (intro impI)
  assume a: "str_includes (command p) ''service restart'' \<and>
    str_includes (command p) ''Cisco Tomcat'' \<and> phase s = ShellOpen \<and> settled s = None \<and>
    (step = executeCommand_step p \<or> step = executeCommandWithStream_step p)"
  define t where "t = (if step = executeCommand_step p then append_chunk chunk s
                       else notify (onData p) chunk (append_chunk chunk s))"
  have t1: "commandOutput t = commandOutput s @ chunk" and t2: "settled t = None"
    using a by (auto simp: t_def append_chunk_def notify_def)
  have st: "step (StreamData chunk) s = detect_completion (command p) chunk t"
    using a by (auto simp: t_def)
  have 1: "settled (step (StreamData chunk) s) =
       (if str_includes (commandOutput s @ chunk) ''[STARTED]'' \<and> str_includes chunk ''admin:''
        then Some (succeeded (commandOutput s @ chunk))
        else if str_includes (commandOutput s @ chunk) ''[FAILED]'' \<or>
                str_includes (commandOutput s @ chunk) ''ERROR''
        then Some (failure ServiceRestartFailed (Some (commandOutput s @ chunk)))
        else None)"
    using a detect_restart [of "command p" t chunk] t1 t2 st by simp
  have 2: "settled (step (StreamData chunk) s) \<noteq> None \<longrightarrow>
        \<not> timeout_armed (step (StreamData chunk) s)"
    using a detect_restart_timer [of "command p" t chunk] t2 st by simp
  from 1 2 show "settled (step (StreamData chunk) s) =
       (if str_includes (commandOutput s @ chunk) ''[STARTED]'' \<and> str_includes chunk ''admin:''
        then Some (succeeded (commandOutput s @ chunk))
        else if str_includes (commandOutput s @ chunk) ''[FAILED]'' \<or>
                str_includes (commandOutput s @ chunk) ''ERROR''
        then Some (failure ServiceRestartFailed (Some (commandOutput s @ chunk)))
        else None) \<and>
     (settled (step (StreamData chunk) s) \<noteq> None \<longrightarrow>
        \<not> timeout_armed (step (StreamData chunk) s)) \<and>
     (str_includes (commandOutput s @ chunk) ''[FAILED]'' \<and>
      \<not> str_includes (commandOutput s @ chunk) ''[STARTED]'' \<longrightarrow>
        settled (step (StreamData chunk) s) =
          Some (failure ServiceRestartFailed (Some (commandOutput s @ chunk))))"
    by simp
qed

theorem restart_detection_witness:
  "settled (executeCommand restart_tomcat
      [ConnReady, ShellCallback None, PromptTimerFires, StreamData ''Cisco Tomcat[FAILED]'']) =
     Some (failure ServiceRestartFailed (Some ''Cisco Tomcat[FAILED]'')) \<and>
   response_timer_armed (executeCommand restart_tomcat
      [ConnReady, ShellCallback None, PromptTimerFires, StreamData ''Cisco Tomcat[FAILED]''])"
proof -
  let ?s = "executeCommand restart_tomcat [ConnReady, ShellCallback None, PromptTimerFires]"
  have s: "phase ?s = ShellOpen \<and> settled ?s = None \<and> commandOutput ?s = []"
    by (simp add: shell_open_state initial_def)
  have f: "str_includes ''Cisco Tomcat[FAILED]'' ''[FAILED]'' \<and>
      \<not> str_includes ''Cisco Tomcat[FAILED]'' ''[STARTED]''"
    by simp
  have e: "executeCommand restart_tomcat
      [ConnReady, ShellCallback None, PromptTimerFires, StreamData ''Cisco Tomcat[FAILED]''] =
      executeCommand_step restart_tomcat (StreamData ''Cisco Tomcat[FAILED]'') ?s"
    using executeCommand_snoc [of restart_tomcat "[ConnReady, ShellCallback None, PromptTimerFires]"]
    by simp
  from restart_tomcat_command s f
    restart_detection [of restart_tomcat ?s "executeCommand_step restart_tomcat"
      "''Cisco Tomcat[FAILED]''"]
  have 1: "settled (executeCommand_step restart_tomcat (StreamData ''Cisco Tomcat[FAILED]'') ?s) =
     Some (failure ServiceRestartFailed (Some ''Cisco Tomcat[FAILED]''))"
    by simp
  have 2: "response_timer_armed
      (executeCommand_step restart_tomcat (StreamData ''Cisco Tomcat[FAILED]'') ?s)"
    by (simp add: shell_open_state initial_def restart_tomcat_def handler_defs)
  from 1 2 e show ?thesis by simp
qed

text \<open>
  C4 as stated fails in two ways. The success test comes first: one chunk that holds
  \<open>[FAILED]\<close>, then \<open>[STARTED]\<close>, then the prompt resolves success. And the markers are
  looked for only when the command names \<open>Cisco Tomcat\<close>: the restart of another service
  does not fail on \<open>[FAILED]\<close>.
\<close>

theorem restart_failed_then_started:
  "settled (executeCommand restart_tomcat
      [ConnReady, ShellCallback None, PromptTimerFires,
       StreamData ''[FAILED] [STARTED] admin:'']) =
     Some \<lparr> success = True, result_output = Some ''[FAILED] [STARTED] admin:'', error = None,
            message = None \<rparr> \<and>
   settled (executeCommand restart_tftp
      [ConnReady, ShellCallback None, PromptTimerFires, StreamData ''Cisco Tftp[FAILED]'']) = None"
  by (simp add: executeCommand_def initial_def restart_tomcat_def restart_tftp_def
      handler_defs succeeded_def)

text \<open>
  C5: when the stream closes before a result was delivered, its handler calls \<open>cleanup\<close>
  and not \<open>resolve\<close>: the flag is set, so the handler of the connection's close skips
  its \<open>resolveResult\<close>, and the overall timer is cleared. The invocation ends with the
  transport torn down once and no resolution at all.
\<close>

theorem stream_close_no_resolution:
  "executeCommand show_status
     [ConnReady, ShellCallback None, StreamData ''Welcome'', StreamClose, ConnClose,
      PromptTimerFires, TimeoutFires] =
   \<lparr> phase = ShellClosed, commandOutput = ''Welcome'', resolved = True, settled = None,
     resolve_calls = 0, end_calls = 1, timeout_armed = False, prompt_timer_armed = False,
     response_timer_armed = False, written = [], observed = [] \<rparr>"
  by (simp add: executeCommand_def initial_def show_status_def handler_defs)

lemma abandoned_executeCommand_step:
  "abandoned s \<Longrightarrow> \<forall>m. e \<noteq> ConnError m \<Longrightarrow> abandoned (executeCommand_step p e s)"
  by (cases "(p, e, s)" rule: executeCommand_step.cases)
     (auto simp: abandoned_def handler_defs)

lemma abandoned_stream_step:
  "abandoned s \<Longrightarrow> \<forall>m. e \<noteq> ConnError m \<Longrightarrow> abandoned (executeCommandWithStream_step p e s)"
  by (cases "(p, e, s)" rule: executeCommandWithStream_step.cases)
     (auto simp: abandoned_def handler_defs)

lemma abandoned_testConnection_step:
  "abandoned s \<Longrightarrow> \<forall>m. e \<noteq> ConnError m \<Longrightarrow> abandoned (testConnection_step e s)"
  by (cases "(e, s)" rule: testConnection_step.cases)
     (auto simp: abandoned_def handler_defs)

lemma abandoned_run:
  "(\<And>e s. abandoned s \<Longrightarrow> \<forall>m. e \<noteq> ConnError m \<Longrightarrow> abandoned (step e s)) \<Longrightarrow>
   abandoned s \<Longrightarrow> \<forall>m. ConnError m \<notin> set es \<Longrightarrow> abandoned (run step es s)"
proof (induction es arbitrary: s)
  case Nil
  then show ?case by simp
next
  case (Cons e es)
  have "\<forall>m. e \<noteq> ConnError m" using Cons.prems(3) by auto
  then have "abandoned (step e s)" using Cons.prems(1,2) by blast
  moreover have "\<forall>m. ConnError m \<notin> set es" using Cons.prems(3) by auto
  ultimately show ?case using Cons.IH Cons.prems(1) by simp
qed

text \<open>
  C10: after the stream has closed with no result delivered, the promise of each of the
  three operations stays pending whatever happens next, as long as the connection reports
  no error: neither the close of the connection nor any timer settles it.
\<close>

theorem stream_close_leaves_promise_pending:
  "(\<forall>m. ConnError m \<notin> set es) \<longrightarrow>
     settled (testConnection ([ConnReady, ShellCallback None, StreamClose] @ es)) = None \<and>
     settled (executeCommand p ([ConnReady, ShellCallback None, StreamClose] @ es)) = None \<and>
     settled (executeCommandWithStream p ([ConnReady, ShellCallback None, StreamClose] @ es)) = None"
proof
  assume q: "\<forall>m. ConnError m \<notin> set es"
  have 1: "abandoned (run testConnection_step [ConnReady, ShellCallback None, StreamClose] initial)"
    by (simp add: abandoned_def initial_def handler_defs)
  have 2: "abandoned (run (executeCommand_step p) [ConnReady, ShellCallback None, StreamClose] initial)"
    by (simp add: abandoned_def initial_def handler_defs)
  have 3: "abandoned (run (executeCommandWithStream_step p)
      [ConnReady, ShellCallback None, StreamClose] initial)"
    by (simp add: abandoned_def initial_def handler_defs)
  have "abandoned (testConnection ([ConnReady, ShellCallback None, StreamClose] @ es))"
    unfolding testConnection_def run_append
    using abandoned_run [OF abandoned_testConnection_step 1 q] .
  moreover have "abandoned (executeCommand p ([ConnReady, ShellCallback None, StreamClose] @ es))"
    unfolding executeCommand_def run_append
    using abandoned_run [OF abandoned_executeCommand_step 2 q] .
  moreover have "abandoned (executeCommandWithStream p
      ([ConnReady, ShellCallback None, StreamClose] @ es))"
    unfolding executeCommandWithStream_def run_append
    using abandoned_run [OF abandoned_stream_step 3 q] .
  ultimately show "settled (testConnection ([ConnReady, ShellCallback None, StreamClose] @ es)) = None \<and>
     settled (executeCommand p ([ConnReady, ShellCallback None, StreamClose] @ es)) = None \<and>
     settled (executeCommandWithStream p ([ConnReady, ShellCallback None, StreamClose] @ es)) = None"
    by (simp add: abandoned_def)
qed

theorem stream_close_leaves_promise_pending_witness:
  "settled (testConnection
      [ConnReady, ShellCallback None, StreamClose, ConnClose, PromptTimerFires,
       ResponseTimerFires, TimeoutFires]) = None \<and>
   settled (executeCommand show_status
      [ConnReady, ShellCallback None, StreamClose, ConnClose, PromptTimerFires,
       ResponseTimerFires, TimeoutFires]) = None \<and>
   settled (executeCommandWithStream show_status
      [ConnReady, ShellCallback None, StreamClose, ConnClose, PromptTimerFires,
       ResponseTimerFires, TimeoutFires]) = None"
proof -
  have "\<forall>m. ConnError m \<notin> set [ConnClose, PromptTimerFires, ResponseTimerFires, TimeoutFires]"
    by simp
  with stream_close_leaves_promise_pending
    [of "[ConnClose, PromptTimerFires, ResponseTimerFires, TimeoutFires]" show_status]
  show ?thesis by simp
qed

end
